theory Spec2Isabelle
  imports Complex_Main
begin

section \<open>Numbers\<close>

text \<open>
  The application computes with JavaScript numbers. Quantities, prices and costs are
  modelled as exact reals: rounding of IEEE doubles is not modelled. The one place where
  a JavaScript number leaves the reals is a division by zero, which does not raise but
  yields \<open>Infinity\<close>, \<open>-Infinity\<close> or \<open>NaN\<close>; the result of a division whose divisor is
  not a constant is therefore a \<open>jsnum\<close>.
\<close>

datatype jsnum = Fin real | PosInf | NegInf | NaN

text \<open>\<open>a / b\<close> on finite operands. A zero divisor obtained as a sum is \<open>+0\<close>.\<close>

definition js_div :: "real \<Rightarrow> real \<Rightarrow> jsnum" where
  "js_div a b =
     (if b \<noteq> 0 then Fin (a / b)
      else if a > 0 then PosInf
      else if a < 0 then NegInf
      else NaN)"

section \<open>Cost model (lib/utils/calculations)\<close>

definition calculateVAT :: "real \<Rightarrow> real \<Rightarrow> real" where
  "calculateVAT amount vatRate = amount * vatRate"

definition calculateTotalWithVAT :: "real \<Rightarrow> real \<Rightarrow> real" where
  "calculateTotalWithVAT amount vatRate = amount + calculateVAT amount vatRate"

definition calculateAverageCost :: "real \<Rightarrow> real \<Rightarrow> real \<Rightarrow> real \<Rightarrow> jsnum" where
  "calculateAverageCost currentQuantity currentAverageCost newQuantity newCost =
     (if currentQuantity = 0 \<and> newQuantity = 0 then Fin 0
      else
        let totalValue = currentQuantity * currentAverageCost + newQuantity * newCost;
            totalQuantity = currentQuantity + newQuantity
        in js_div totalValue totalQuantity)"

section \<open>Tables of the backing store\<close>

text \<open>
  Row identifiers, product and branch identifiers are strings; \<open>new Date().toISOString()\<close>
  is a timestamp passed in by the caller. Each record is a row type of the store, with the
  columns the pages read and write; the field prefix names the table.
\<close>

type_synonym timestamp = nat

record InventoryItem =
  ii_id :: string
  ii_product_id :: string
  ii_branch_id :: string
  ii_quantity :: real
  ii_average_cost :: real
  ii_updated_at :: timestamp

record InventoryAdjustment =
  adj_inventory_item_id :: string
  adj_previous_quantity :: real
  adj_new_quantity :: real
  adj_reason :: string

record PurchaseInvoice =
  pinv_id :: string
  pinv_invoice_number :: string
  pinv_supplier :: string
  pinv_branch_id :: string
  pinv_total_amount :: real
  pinv_vat_amount :: real
  pinv_created_by :: "string option"

record PurchaseItem =
  pit_purchase_invoice_id :: string
  pit_product_id :: string
  pit_quantity :: real
  pit_unit_price :: real
  pit_vat_percentage :: real
  pit_total_price :: real

record Transformation =
  tr_id :: string
  tr_reference_number :: string
  tr_branch_id :: string
  tr_target_product_id :: string
  tr_target_quantity :: real
  tr_total_cost :: real
  tr_notes :: "string option"
  tr_created_by :: "string option"

record TransformationItem =
  tri_transformation_id :: string
  tri_product_id :: string
  tri_quantity :: real
  tri_cost_per_unit :: real
  tri_total_cost :: real

record WasteRecord =
  w_id :: string
  w_reference_number :: string
  w_branch_id :: string
  w_product_id :: string
  w_quantity :: real
  w_cost :: real
  w_reason :: string
  w_notes :: "string option"
  w_created_by :: "string option"

datatype audit_status = draft | in_progress | completed | cancelled

record InventoryAudit =
  au_id :: string
  au_branch_id :: string
  au_status :: audit_status
  au_completed_at :: "timestamp option"
  au_completed_by :: "string option"
  au_updated_at :: "timestamp option"
  au_updated_by :: "string option"

record InventoryAuditItem =
  ai_id :: string
  ai_audit_id :: string
  ai_product_id :: string
  ai_expected_quantity :: real
  ai_actual_quantity :: "real option"
  ai_difference :: "real option"
  ai_notes :: "string option"

record Product =
  prod_id :: string
  prod_name :: string
  prod_sku :: string
  prod_unit :: string

record db =
  products :: "Product list"
  inventory_items :: "InventoryItem list"
  inventory_adjustments :: "InventoryAdjustment list"
  purchase_invoices :: "PurchaseInvoice list"
  purchase_items :: "PurchaseItem list"
  transformations :: "Transformation list"
  transformation_items :: "TransformationItem list"
  waste :: "WasteRecord list"
  inventory_audits :: "InventoryAudit list"
  inventory_audit_items :: "InventoryAuditItem list"

text \<open>
  What a handler can end with. \<open>InsufficientStock a\<close> is the error thrown by the
  availability checks, whose message reports the available quantity \<open>a\<close>;
  \<open>IncompleteAudit\<close> is the error set when an audit still has uncounted items;
  \<open>ValidationError\<close> is a form rejected by its zod schema; \<open>BackendError\<close> is an error
  returned by a call to the store.
\<close>

datatype error =
    ValidationError
  | InsufficientStock real
  | IncompleteAudit
  | BackendError string

text \<open>
  A handler returns the error it ended with, if any, and the store as it left it.
  Every call to the store can fail: a handler is given, for each of its statements, either
  the database trigger of the statement, which may reject it, or the error the call
  returns, if any (\<open>None\<close> when it succeeds). A statement that fails changes nothing;
  what the handler wrote before it stays.
\<close>

type_synonym outcome = "error option \<times> db"

text \<open>\<open>notes || null\<close>: a missing or empty note is stored as null.\<close>

definition or_null :: "string option \<Rightarrow> string option" where
  "or_null notes = (case notes of None \<Rightarrow> None | Some s \<Rightarrow> if s = [] then None else Some s)"

record User =
  user_id :: string
  user_role :: string
  user_branch_id :: "string option"

section \<open>Manual inventory adjustment (AdjustInventoryPage)\<close>

record AdjustInventoryFormValues =
  adjf_quantity :: real
  adjf_reason :: string

definition adjustInventorySchema :: "AdjustInventoryFormValues \<Rightarrow> bool" where
  "adjustInventorySchema d \<longleftrightarrow> adjf_quantity d \<ge> 0 \<and> length (adjf_reason d) \<ge> 3"

record AdjustInventoryPage =
  ap_inventoryItemId :: string
  ap_inventoryItem :: "InventoryItem option"
  ap_product :: "Product option"

text \<open>
  \<open>fetchInventoryItem\<close>: the item is looked up by its id and then its product by the
  item's \<open>product_id\<close>; \<open>.single()\<close> fails unless exactly one row matches. The page's item
  and product are set only after both lookups have succeeded, and stay \<open>null\<close> otherwise.
\<close>

definition fetchInventoryItem :: "db \<Rightarrow> string \<Rightarrow> AdjustInventoryPage" where
  "fetchInventoryItem d i =
     (case filter (\<lambda>r. ii_id r = i) (inventory_items d) of
        [itemData] \<Rightarrow>
          (case filter (\<lambda>p. prod_id p = ii_product_id itemData) (products d) of
             [productData] \<Rightarrow>
               \<lparr>ap_inventoryItemId = i, ap_inventoryItem = Some itemData,
                ap_product = Some productData\<rparr>
           | _ \<Rightarrow> \<lparr>ap_inventoryItemId = i, ap_inventoryItem = None, ap_product = None\<rparr>)
      | _ \<Rightarrow> \<lparr>ap_inventoryItemId = i, ap_inventoryItem = None, ap_product = None\<rparr>)"

text \<open>
  \<open>onSubmit\<close>: nothing happens without a loaded item. The adjustment row is inserted with
  the quantity of the page's item as previous quantity; \<open>adjustmentError\<close> is the error of
  that insert and \<open>updateError\<close> the error of the update of \<open>inventory_items\<close> that
  follows. When the update fails, the adjustment row has already been written.
\<close>

definition adjust_onSubmit ::
  "error option \<Rightarrow> error option \<Rightarrow> AdjustInventoryPage \<Rightarrow> timestamp \<Rightarrow> db \<Rightarrow>
     AdjustInventoryFormValues \<Rightarrow> outcome" where
  "adjust_onSubmit adjustmentError updateError page now d dat =
     (case ap_inventoryItem page of
        None \<Rightarrow> (None, d)
      | Some item \<Rightarrow>
          (case adjustmentError of
             Some e \<Rightarrow> (Some e, d)
           | None \<Rightarrow>
               let d1 = d\<lparr>inventory_adjustments := inventory_adjustments d @
                            [\<lparr>adj_inventory_item_id = ap_inventoryItemId page,
                              adj_previous_quantity = ii_quantity item,
                              adj_new_quantity = adjf_quantity dat,
                              adj_reason = adjf_reason dat\<rparr>]\<rparr>
               in (case updateError of
                     Some e \<Rightarrow> (Some e, d1)
                   | None \<Rightarrow>
                       (None,
                        d1\<lparr>inventory_items :=
                              map (\<lambda>r. if ii_id r = ap_inventoryItemId page
                                        then r\<lparr>ii_quantity := adjf_quantity dat,
                                               ii_updated_at := now\<rparr>
                                        else r)
                                  (inventory_items d1)\<rparr>))))"

text \<open>\<open>handleSubmit(onSubmit)\<close>: the resolver validates the form before \<open>onSubmit\<close> runs.\<close>

definition adjust_handleSubmit ::
  "error option \<Rightarrow> error option \<Rightarrow> AdjustInventoryPage \<Rightarrow> timestamp \<Rightarrow> db \<Rightarrow>
     AdjustInventoryFormValues \<Rightarrow> outcome" where
  "adjust_handleSubmit adjustmentError updateError page now d dat =
     (if adjustInventorySchema dat
      then adjust_onSubmit adjustmentError updateError page now d dat
      else (Some ValidationError, d))"

section \<open>Database triggers\<close>

text \<open>
  The pages leave every update of \<open>inventory_items\<close> that follows an insert or a delete
  to a trigger of the database. The triggers are not part of the application source, so
  each handler takes the trigger of its statement as a parameter: given the store and the
  rows of the statement, it returns the new \<open>inventory_items\<close>, or the error with which
  the statement is rejected.
\<close>

type_synonym 'r trigger = "'r \<Rightarrow> db \<Rightarrow> error + InventoryItem list"

section \<open>Recording waste (AddWastePage)\<close>

record WasteFormValues =
  wf_reference_number :: string
  wf_branch_id :: string
  wf_product_id :: string
  wf_quantity :: real
  wf_reason :: string
  wf_notes :: "string option"

definition wasteSchema :: "WasteFormValues \<Rightarrow> bool" where
  "wasteSchema d \<longleftrightarrow>
     length (wf_reference_number d) \<ge> 1 \<and> length (wf_branch_id d) \<ge> 1 \<and>
     length (wf_product_id d) \<ge> 1 \<and> wf_quantity d \<ge> 1 / 100 \<and> length (wf_reason d) \<ge> 1"

record AddWastePage =
  wp_inventory :: "InventoryItem list"
  wp_totalCost :: real
  wp_user :: "User option"

text \<open>
  The two effects that keep \<open>selectedProductCost\<close> and \<open>totalCost\<close> in step with the
  watched form fields. An empty string and the number 0 are falsy.
\<close>

definition waste_selectedProductCost :: "InventoryItem list \<Rightarrow> string \<Rightarrow> string \<Rightarrow> real" where
  "waste_selectedProductCost inventory watchProductId watchBranchId =
     (if watchProductId \<noteq> [] \<and> watchBranchId \<noteq> [] then
        (case find (\<lambda>item. ii_product_id item = watchProductId \<and> ii_branch_id item = watchBranchId)
                   inventory of
           Some inventoryItem \<Rightarrow> ii_average_cost inventoryItem
         | None \<Rightarrow> 0)
      else 0)"

definition waste_totalCost :: "real \<Rightarrow> real \<Rightarrow> real" where
  "waste_totalCost watchQuantity selectedProductCost =
     (if watchQuantity \<noteq> 0 \<and> selectedProductCost \<noteq> 0
      then watchQuantity * selectedProductCost else 0)"

text \<open>
  The page after \<open>fetchData\<close> has loaded the inventory and the effects have run on the
  form values \<open>dat\<close>.
\<close>

definition waste_page :: "db \<Rightarrow> User option \<Rightarrow> WasteFormValues \<Rightarrow> AddWastePage" where
  "waste_page d u dat =
     \<lparr>wp_inventory = inventory_items d,
      wp_totalCost = waste_totalCost (wf_quantity dat)
                       (waste_selectedProductCost (inventory_items d)
                          (wf_product_id dat) (wf_branch_id dat)),
      wp_user = u\<rparr>"

definition waste_getAvailableInventory :: "InventoryItem list \<Rightarrow> string \<Rightarrow> string \<Rightarrow> real" where
  "waste_getAvailableInventory inventory watchProductId watchBranchId =
     (if watchProductId = [] \<or> watchBranchId = [] then 0
      else
        (case find (\<lambda>item. ii_product_id item = watchProductId \<and> ii_branch_id item = watchBranchId)
                   inventory of
           Some inventoryItem \<Rightarrow> ii_quantity inventoryItem
         | None \<Rightarrow> 0))"

text \<open>
  \<open>onSubmit\<close>. The watched product and branch are the submitted ones. \<open>new_id\<close> is the
  identifier the store gives the new row.
\<close>

definition waste_onSubmit ::
  "WasteRecord trigger \<Rightarrow> AddWastePage \<Rightarrow> string \<Rightarrow> db \<Rightarrow> WasteFormValues \<Rightarrow> outcome" where
  "waste_onSubmit trig page new_id d dat =
     (let availableQuantity =
            waste_getAvailableInventory (wp_inventory page) (wf_product_id dat) (wf_branch_id dat)
      in if wf_quantity dat > availableQuantity
         then (Some (InsufficientStock availableQuantity), d)
         else
           let row = \<lparr>w_id = new_id,
                      w_reference_number = wf_reference_number dat,
                      w_branch_id = wf_branch_id dat,
                      w_product_id = wf_product_id dat,
                      w_quantity = wf_quantity dat,
                      w_cost = wp_totalCost page,
                      w_reason = wf_reason dat,
                      w_notes = or_null (wf_notes dat),
                      w_created_by = map_option user_id (wp_user page)\<rparr>
           in (case trig row d of
                 Inl e \<Rightarrow> (Some e, d)
               | Inr new_inventory \<Rightarrow> (None, d\<lparr>waste := waste d @ [row], inventory_items := new_inventory\<rparr>)))"

definition waste_handleSubmit ::
  "WasteRecord trigger \<Rightarrow> AddWastePage \<Rightarrow> string \<Rightarrow> db \<Rightarrow> WasteFormValues \<Rightarrow> outcome" where
  "waste_handleSubmit trig page new_id d dat =
     (if wasteSchema dat then waste_onSubmit trig page new_id d dat
      else (Some ValidationError, d))"

section \<open>Recording a transformation (AddTransformationPage)\<close>

record TransformationItemFormValues =
  trif_product_id :: string
  trif_quantity :: real
  trif_cost_per_unit :: real
  trif_total_cost :: real

record TransformationFormValues =
  trf_reference_number :: string
  trf_branch_id :: string
  trf_target_product_id :: string
  trf_target_quantity :: real
  trf_notes :: "string option"
  trf_source_items :: "TransformationItemFormValues list"

definition transformationItemSchema :: "TransformationItemFormValues \<Rightarrow> bool" where
  "transformationItemSchema i \<longleftrightarrow>
     length (trif_product_id i) \<ge> 1 \<and> trif_quantity i \<ge> 1 / 100 \<and>
     trif_cost_per_unit i \<ge> 0 \<and> trif_total_cost i \<ge> 0"

definition transformationSchema :: "TransformationFormValues \<Rightarrow> bool" where
  "transformationSchema d \<longleftrightarrow>
     length (trf_reference_number d) \<ge> 1 \<and> length (trf_branch_id d) \<ge> 1 \<and>
     length (trf_target_product_id d) \<ge> 1 \<and> trf_target_quantity d \<ge> 1 / 100 \<and>
     list_all transformationItemSchema (trf_source_items d) \<and>
     length (trf_source_items d) \<ge> 1"

record AddTransformationPage =
  tp_inventory :: "InventoryItem list"
  tp_totalCost :: real
  tp_user :: "User option"

text \<open>
  \<open>inventory\<close> and \<open>totalCost\<close> are state of the page. The inventory is loaded once, by
  \<open>fetchData\<close> when the page is mounted. \<open>totalCost\<close> starts at 0 and is set by an effect
  that sums the items' \<open>total_cost\<close>, skipping falsy ones, whenever the effect runs;
  \<open>onSubmit\<close> reads both as they are.
\<close>

definition transformation_totalCost :: "TransformationItemFormValues list \<Rightarrow> real" where
  "transformation_totalCost watchSourceItems =
     fold (\<lambda>item cost. if trif_total_cost item \<noteq> 0 then cost + trif_total_cost item else cost)
          watchSourceItems 0"

definition transformation_effect ::
  "TransformationItemFormValues list \<Rightarrow> AddTransformationPage \<Rightarrow> AddTransformationPage" where
  "transformation_effect watchSourceItems page =
     page\<lparr>tp_totalCost := transformation_totalCost watchSourceItems\<rparr>"

definition transformation_defaultItems :: "TransformationItemFormValues list" where
  "transformation_defaultItems =
     [\<lparr>trif_product_id = [], trif_quantity = 1, trif_cost_per_unit = 0, trif_total_cost = 0\<rparr>]"

text \<open>The page once mounted on the store \<open>d\<close>: inventory loaded, effect run on the default row.\<close>

definition transformation_mount :: "db \<Rightarrow> User option \<Rightarrow> AddTransformationPage" where
  "transformation_mount d u =
     transformation_effect transformation_defaultItems
       \<lparr>tp_inventory = inventory_items d, tp_totalCost = 0, tp_user = u\<rparr>"

definition transformation_getAvailableInventory ::
  "InventoryItem list \<Rightarrow> string \<Rightarrow> string \<Rightarrow> real" where
  "transformation_getAvailableInventory inventory watchBranchId productId =
     (if watchBranchId = [] then 0
      else
        (case find (\<lambda>item. ii_product_id item = productId \<and> ii_branch_id item = watchBranchId)
                   inventory of
           Some inventoryItem \<Rightarrow> ii_quantity inventoryItem
         | None \<Rightarrow> 0))"

text \<open>
  \<open>onSubmit\<close>. The loop over the source items throws at the first item that asks for more
  than the page's inventory holds, before anything is written. \<open>transformationError\<close> is
  the error of the insert into \<open>transformations\<close>; the trigger is the one of the insert
  into \<open>transformation_items\<close>, the last statement, and when it rejects the statement the
  row already inserted into \<open>transformations\<close> stays.
\<close>

definition transformation_onSubmit ::
  "TransformationItem list trigger \<Rightarrow> error option \<Rightarrow> AddTransformationPage \<Rightarrow> string \<Rightarrow>
     db \<Rightarrow> TransformationFormValues \<Rightarrow> outcome" where
  "transformation_onSubmit trig transformationError page new_id d dat =
     (case find (\<lambda>item. trif_quantity item >
                   transformation_getAvailableInventory (tp_inventory page) (trf_branch_id dat)
                     (trif_product_id item))
                (trf_source_items dat) of
        Some item \<Rightarrow>
          (Some (InsufficientStock
                   (transformation_getAvailableInventory (tp_inventory page) (trf_branch_id dat)
                      (trif_product_id item))), d)
      | None \<Rightarrow>
        (case transformationError of
           Some e \<Rightarrow> (Some e, d)
         | None \<Rightarrow>
          let transformationData =
                \<lparr>tr_id = new_id,
                 tr_reference_number = trf_reference_number dat,
                 tr_branch_id = trf_branch_id dat,
                 tr_target_product_id = trf_target_product_id dat,
                 tr_target_quantity = trf_target_quantity dat,
                 tr_total_cost = tp_totalCost page,
                 tr_notes = or_null (trf_notes dat),
                 tr_created_by = map_option user_id (tp_user page)\<rparr>;
              d1 = d\<lparr>transformations := transformations d @ [transformationData]\<rparr>;
              transformationItems =
                map (\<lambda>item. \<lparr>tri_transformation_id = tr_id transformationData,
                              tri_product_id = trif_product_id item,
                              tri_quantity = trif_quantity item,
                              tri_cost_per_unit = trif_cost_per_unit item,
                              tri_total_cost = trif_total_cost item\<rparr>)
                    (trf_source_items dat)
          in (case trig transformationItems d1 of
                Inl e \<Rightarrow> (Some e, d1)
              | Inr new_inventory \<Rightarrow>
                  (None, d1\<lparr>transformation_items := transformation_items d1 @ transformationItems,
                             inventory_items := new_inventory\<rparr>))))"

definition transformation_handleSubmit ::
  "TransformationItem list trigger \<Rightarrow> error option \<Rightarrow> AddTransformationPage \<Rightarrow> string \<Rightarrow>
     db \<Rightarrow> TransformationFormValues \<Rightarrow> outcome" where
  "transformation_handleSubmit trig transformationError page new_id d dat =
     (if transformationSchema dat
      then transformation_onSubmit trig transformationError page new_id d dat
      else (Some ValidationError, d))"

section \<open>Recording a purchase (AddPurchasePage)\<close>

record PurchaseItemFormValues =
  pif_product_id :: string
  pif_quantity :: real
  pif_unit_price :: real
  pif_vat_percentage :: real
  pif_total_price :: real

record PurchaseInvoiceFormValues =
  pf_invoice_number :: string
  pf_supplier :: string
  pf_branch_id :: string
  pf_items :: "PurchaseItemFormValues list"

definition purchaseItemSchema :: "PurchaseItemFormValues \<Rightarrow> bool" where
  "purchaseItemSchema i \<longleftrightarrow>
     length (pif_product_id i) \<ge> 1 \<and> pif_quantity i \<ge> 1 / 100 \<and>
     pif_unit_price i \<ge> 1 / 100 \<and>
     pif_vat_percentage i \<ge> 0 \<and> pif_vat_percentage i \<le> 100 \<and> pif_total_price i \<ge> 0"

definition purchaseInvoiceSchema :: "PurchaseInvoiceFormValues \<Rightarrow> bool" where
  "purchaseInvoiceSchema d \<longleftrightarrow>
     length (pf_invoice_number d) \<ge> 1 \<and> length (pf_supplier d) \<ge> 1 \<and>
     length (pf_branch_id d) \<ge> 1 \<and>
     list_all purchaseItemSchema (pf_items d) \<and> length (pf_items d) \<ge> 1"

record AddPurchasePage =
  pp_totalAmount :: real
  pp_totalVAT :: real
  pp_user :: "User option"

text \<open>
  \<open>totalAmount\<close> and \<open>totalVAT\<close> are state of the page, both starting at 0. They are set
  by an effect that recomputes the invoice totals from the watched items whenever it runs:
  its loop keeps the pair \<open>(subTotal, vatAmount)\<close> and skips an item whose quantity or unit
  price is falsy. \<open>onSubmit\<close> does not recompute them: it writes the state as it is.
\<close>

definition purchase_totals :: "PurchaseItemFormValues list \<Rightarrow> real \<times> real" where
  "purchase_totals watchItems =
     fold (\<lambda>item (subTotal, vatAmount).
             if pif_quantity item \<noteq> 0 \<and> pif_unit_price item \<noteq> 0 then
               let itemSubtotal = pif_quantity item * pif_unit_price item;
                   itemVAT = calculateVAT itemSubtotal (pif_vat_percentage item / 100)
               in (subTotal + itemSubtotal, vatAmount + itemVAT)
             else (subTotal, vatAmount))
          watchItems (0, 0)"

definition purchase_effect ::
  "PurchaseItemFormValues list \<Rightarrow> AddPurchasePage \<Rightarrow> AddPurchasePage" where
  "purchase_effect watchItems page =
     (let (subTotal, vatAmount) = purchase_totals watchItems
      in page\<lparr>pp_totalAmount := subTotal + vatAmount, pp_totalVAT := vatAmount\<rparr>)"

definition purchase_defaultItems :: "PurchaseItemFormValues list" where
  "purchase_defaultItems =
     [\<lparr>pif_product_id = [], pif_quantity = 1, pif_unit_price = 0, pif_vat_percentage = 15,
       pif_total_price = 0\<rparr>]"

text \<open>The page once mounted: the effect has run on the default row of the form.\<close>

definition purchase_mount :: "User option \<Rightarrow> AddPurchasePage" where
  "purchase_mount u =
     purchase_effect purchase_defaultItems
       \<lparr>pp_totalAmount = 0, pp_totalVAT = 0, pp_user = u\<rparr>"

text \<open>
  \<open>onSubmit\<close>: the invoice row, then its item rows. \<open>invoiceError\<close> is the error of the
  insert into \<open>purchase_invoices\<close>; the trigger is the one of the insert into
  \<open>purchase_items\<close>, and when it rejects the statement the invoice row stays.
\<close>

definition purchase_onSubmit ::
  "PurchaseItem list trigger \<Rightarrow> error option \<Rightarrow> AddPurchasePage \<Rightarrow> string \<Rightarrow> db \<Rightarrow>
     PurchaseInvoiceFormValues \<Rightarrow> outcome" where
  "purchase_onSubmit trig invoiceError page new_id d dat =
     (case invoiceError of
        Some e \<Rightarrow> (Some e, d)
      | None \<Rightarrow>
      let invoiceData =
            \<lparr>pinv_id = new_id,
             pinv_invoice_number = pf_invoice_number dat,
             pinv_supplier = pf_supplier dat,
             pinv_branch_id = pf_branch_id dat,
             pinv_total_amount = pp_totalAmount page,
             pinv_vat_amount = pp_totalVAT page,
             pinv_created_by = map_option user_id (pp_user page)\<rparr>;
          d1 = d\<lparr>purchase_invoices := purchase_invoices d @ [invoiceData]\<rparr>;
          purchaseItems =
            map (\<lambda>item. \<lparr>pit_purchase_invoice_id = pinv_id invoiceData,
                          pit_product_id = pif_product_id item,
                          pit_quantity = pif_quantity item,
                          pit_unit_price = pif_unit_price item,
                          pit_vat_percentage = pif_vat_percentage item,
                          pit_total_price = pif_total_price item\<rparr>)
                (pf_items dat)
      in (case trig purchaseItems d1 of
            Inl e \<Rightarrow> (Some e, d1)
          | Inr new_inventory \<Rightarrow>
              (None, d1\<lparr>purchase_items := purchase_items d1 @ purchaseItems,
                         inventory_items := new_inventory\<rparr>)))"

definition purchase_handleSubmit ::
  "PurchaseItem list trigger \<Rightarrow> error option \<Rightarrow> AddPurchasePage \<Rightarrow> string \<Rightarrow> db \<Rightarrow>
     PurchaseInvoiceFormValues \<Rightarrow> outcome" where
  "purchase_handleSubmit trig invoiceError page new_id d dat =
     (if purchaseInvoiceSchema dat then purchase_onSubmit trig invoiceError page new_id d dat
      else (Some ValidationError, d))"

section \<open>Deleting a purchase invoice, a transformation, a waste record (list pages)\<close>

text \<open>
  The three list pages delete the row once the user has confirmed (\<open>confirmed\<close> is the
  answer to the dialog) and drop it from the list they display. The trigger of the delete
  statement is given the identifier of the row and the store before the deletion.
\<close>

definition handleDeletePurchase ::
  "string trigger \<Rightarrow> bool \<Rightarrow> PurchaseInvoice list \<Rightarrow> db \<Rightarrow> string \<Rightarrow>
     outcome \<times> PurchaseInvoice list" where
  "handleDeletePurchase trig confirmed purchases d purchaseId =
     (if \<not> confirmed then ((None, d), purchases)
      else
        (case trig purchaseId d of
           Inl e \<Rightarrow> ((Some e, d), purchases)
         | Inr new_inventory \<Rightarrow>
             ((None, d\<lparr>purchase_invoices :=
                           filter (\<lambda>r. pinv_id r \<noteq> purchaseId) (purchase_invoices d),
                        inventory_items := new_inventory\<rparr>),
              filter (\<lambda>purchase. pinv_id purchase \<noteq> purchaseId) purchases)))"

definition handleDeleteTransformation ::
  "string trigger \<Rightarrow> bool \<Rightarrow> Transformation list \<Rightarrow> db \<Rightarrow> string \<Rightarrow>
     outcome \<times> Transformation list" where
  "handleDeleteTransformation trig confirmed transformationList d transformationId =
     (if \<not> confirmed then ((None, d), transformationList)
      else
        (case trig transformationId d of
           Inl e \<Rightarrow> ((Some e, d), transformationList)
         | Inr new_inventory \<Rightarrow>
             ((None, d\<lparr>transformations :=
                           filter (\<lambda>r. tr_id r \<noteq> transformationId) (transformations d),
                        inventory_items := new_inventory\<rparr>),
              filter (\<lambda>transformation. tr_id transformation \<noteq> transformationId)
                     transformationList)))"

definition handleDeleteWaste ::
  "string trigger \<Rightarrow> bool \<Rightarrow> WasteRecord list \<Rightarrow> db \<Rightarrow> string \<Rightarrow>
     outcome \<times> WasteRecord list" where
  "handleDeleteWaste trig confirmed wasteRecords d wasteId =
     (if \<not> confirmed then ((None, d), wasteRecords)
      else
        (case trig wasteId d of
           Inl e \<Rightarrow> ((Some e, d), wasteRecords)
         | Inr new_inventory \<Rightarrow>
             ((None, d\<lparr>waste := filter (\<lambda>r. w_id r \<noteq> wasteId) (waste d),
                        inventory_items := new_inventory\<rparr>),
              filter (\<lambda>w. w_id w \<noteq> wasteId) wasteRecords)))"

section \<open>Counting and completing an audit (EditInventoryAuditPage)\<close>

record EditInventoryAuditPage =
  eap_auditId :: string
  eap_auditItems :: "InventoryAuditItem list"
  eap_user :: "User option"

text \<open>
  \<open>handleActualQuantityChange\<close>: the count is written to the store and then to the page's
  copy of the items, with the difference to the expected quantity. \<open>updateError\<close> is the
  error of the update of the store; when it fails, the page's copy is not touched either.
\<close>

definition handleActualQuantityChange ::
  "error option \<Rightarrow> EditInventoryAuditPage \<Rightarrow> db \<Rightarrow> string \<Rightarrow> real \<Rightarrow>
     error option \<times> EditInventoryAuditPage \<times> db" where
  "handleActualQuantityChange updateError page d itemId v =
     (case find (\<lambda>i. ai_id i = itemId) (eap_auditItems page) of
        None \<Rightarrow> (None, page, d)
      | Some item \<Rightarrow>
          let difference = v - ai_expected_quantity item;
              upd = (\<lambda>i. if ai_id i = itemId
                          then i\<lparr>ai_actual_quantity := Some v, ai_difference := Some difference\<rparr>
                          else i)
          in (case updateError of
                Some e \<Rightarrow> (Some e, page, d)
              | None \<Rightarrow>
                  (None, page\<lparr>eap_auditItems := map upd (eap_auditItems page)\<rparr>,
                   d\<lparr>inventory_audit_items := map upd (inventory_audit_items d)\<rparr>)))"

text \<open>
  The trigger of the update that completes an audit is given the audit's identifier and
  returns the new \<open>inventory_items\<close> and \<open>inventory_adjustments\<close>.
\<close>

type_synonym audit_trigger =
  "string \<Rightarrow> db \<Rightarrow> error + (InventoryItem list \<times> InventoryAdjustment list)"

definition handleCompleteAudit ::
  "audit_trigger \<Rightarrow> bool \<Rightarrow> EditInventoryAuditPage \<Rightarrow> timestamp \<Rightarrow> db \<Rightarrow> outcome" where
  "handleCompleteAudit trig confirmed page now d =
     (let incompleteItems = filter (\<lambda>item. ai_actual_quantity item = None) (eap_auditItems page)
      in if length incompleteItems > 0 then (Some IncompleteAudit, d)
         else if \<not> confirmed then (None, d)
         else
           let d1 = d\<lparr>inventory_audits :=
                        map (\<lambda>a. if au_id a = eap_auditId page
                                  then a\<lparr>au_status := completed,
                                         au_completed_at := Some now,
                                         au_completed_by := map_option user_id (eap_user page),
                                         au_updated_at := Some now,
                                         au_updated_by := map_option user_id (eap_user page)\<rparr>
                                  else a)
                            (inventory_audits d)\<rparr>
           in (case trig (eap_auditId page) d1 of
                 Inl e \<Rightarrow> (Some e, d)
               | Inr (new_inventory, new_adjustments) \<Rightarrow>
                   (None, d1\<lparr>inventory_items := new_inventory,
                              inventory_adjustments := new_adjustments\<rparr>)))"

section \<open>Stock ledger operations behind the triggers\<close>

text \<open>
  The ledger is the table \<open>inventory_items\<close>, one row per product and branch. The row of a
  pair is found as the pages find it.
\<close>

definition ledger_entry :: "InventoryItem list \<Rightarrow> string \<Rightarrow> string \<Rightarrow> InventoryItem option" where
  "ledger_entry inventory productId branchId =
     find (\<lambda>item. ii_product_id item = productId \<and> ii_branch_id item = branchId) inventory"

definition ledger_quantity :: "InventoryItem list \<Rightarrow> string \<Rightarrow> string \<Rightarrow> real" where
  "ledger_quantity inventory productId branchId =
     (case ledger_entry inventory productId branchId of
        Some e \<Rightarrow> ii_quantity e
      | None \<Rightarrow> 0)"

text \<open>
  Modelled from the spec: \<open>getOrCreate\<close> of the Stock Ledger (the triggers that maintain
  \<open>inventory_items\<close> are not in the application source). It returns the existing entry or a
  zero-initialised one; \<open>row_id\<close> is the identifier the store gives the row of a new pair.
\<close>

definition getOrCreate ::
  "(string \<Rightarrow> string \<Rightarrow> string) \<Rightarrow> InventoryItem list \<Rightarrow> string \<Rightarrow> string \<Rightarrow> InventoryItem" where
  "getOrCreate row_id inventory productId branchId =
     (case ledger_entry inventory productId branchId of
        Some e \<Rightarrow> e
      | None \<Rightarrow> \<lparr>ii_id = row_id productId branchId, ii_product_id = productId,
                  ii_branch_id = branchId, ii_quantity = 0, ii_average_cost = 0,
                  ii_updated_at = 0\<rparr>)"

text \<open>
  Modelled from the spec: writing an entry back to the Stock Ledger, which creates the row
  lazily on the first movement of its pair (the triggers are not in the application source).
\<close>

definition put_entry :: "InventoryItem list \<Rightarrow> InventoryItem \<Rightarrow> InventoryItem list" where
  "put_entry inventory e =
     (case ledger_entry inventory (ii_product_id e) (ii_branch_id e) of
        None \<Rightarrow> inventory @ [e]
      | Some _ \<Rightarrow>
          map (\<lambda>r. if ii_product_id r = ii_product_id e \<and> ii_branch_id r = ii_branch_id e
                    then e else r)
              inventory)"

text \<open>
  Modelled from the spec: \<open>setAbsolute\<close> of the Stock Ledger, used by audit completion (the
  trigger of the completion is not in the application source). It replaces the quantity
  directly, leaves the average cost unchanged, and itself records the adjustment: a row of
  \<open>inventory_adjustments\<close> with the previous and the new quantity, whose difference is the
  signed delta.
\<close>

definition setAbsolute ::
  "(string \<Rightarrow> string \<Rightarrow> string) \<Rightarrow> timestamp \<Rightarrow> InventoryItem list \<times> InventoryAdjustment list \<Rightarrow>
     string \<Rightarrow> string \<Rightarrow> real \<Rightarrow> string \<Rightarrow> InventoryItem list \<times> InventoryAdjustment list" where
  "setAbsolute row_id now st productId branchId qty actorReason =
     (let e = getOrCreate row_id (fst st) productId branchId
      in (put_entry (fst st) (e\<lparr>ii_quantity := qty, ii_updated_at := now\<rparr>),
          snd st @ [\<lparr>adj_inventory_item_id = ii_id e,
                     adj_previous_quantity = ii_quantity e,
                     adj_new_quantity = qty,
                     adj_reason = actorReason\<rparr>]))"

text \<open>
  Modelled from the spec: the reconciliation of \<open>Complete()\<close> (the trigger of the
  completion is not in the application source). For every item of the audit whose
  difference is not 0, the ledger of the item's product at the audit's branch is set to
  the item's actual quantity, for the reason "audit reconciliation".
\<close>

fun reconcile ::
  "(string \<Rightarrow> string \<Rightarrow> string) \<Rightarrow> timestamp \<Rightarrow> string \<Rightarrow> InventoryAuditItem list \<Rightarrow>
     InventoryItem list \<times> InventoryAdjustment list \<Rightarrow>
     InventoryItem list \<times> InventoryAdjustment list" where
  "reconcile row_id now branchId [] st = st"
| "reconcile row_id now branchId (item # rest) st =
     (case (ai_actual_quantity item, ai_difference item) of
        (Some actual, Some difference) \<Rightarrow>
          if difference \<noteq> 0
          then reconcile row_id now branchId rest
                 (setAbsolute row_id now st (ai_product_id item) branchId actual
                    ''audit reconciliation'')
          else reconcile row_id now branchId rest st
      | _ \<Rightarrow> reconcile row_id now branchId rest st)"

text \<open>
  Modelled from the spec: the trigger fired when an audit becomes \<open>completed\<close> (not in the
  application source): it reconciles the items of that audit at the audit's branch.
\<close>

definition audit_completion_trigger ::
  "(string \<Rightarrow> string \<Rightarrow> string) \<Rightarrow> timestamp \<Rightarrow> audit_trigger" where
  "audit_completion_trigger row_id now auditId d =
     (case find (\<lambda>a. au_id a = auditId) (inventory_audits d) of
        None \<Rightarrow> Inr (inventory_items d, inventory_adjustments d)
      | Some a \<Rightarrow>
          Inr (reconcile row_id now (au_branch_id a)
                 (filter (\<lambda>i. ai_audit_id i = auditId) (inventory_audit_items d))
                 (inventory_items d, inventory_adjustments d)))"

section \<open>Sequences of operations\<close>

text \<open>
  The five operations that change stock, each with what its handler is given: the trigger
  or the errors of its statements, the page it is submitted from, and the form.
\<close>

datatype operation =
    RecordPurchase "PurchaseItem list trigger" "error option" AddPurchasePage string
      PurchaseInvoiceFormValues
  | RecordTransformation "TransformationItem list trigger" "error option" AddTransformationPage
      string TransformationFormValues
  | RecordWaste "WasteRecord trigger" AddWastePage string WasteFormValues
  | AdjustInventory "error option" "error option" AdjustInventoryPage timestamp
      AdjustInventoryFormValues
  | CompleteAudit audit_trigger bool EditInventoryAuditPage timestamp

fun apply_operation :: "operation \<Rightarrow> db \<Rightarrow> outcome" where
  "apply_operation (RecordPurchase trig invoiceError page new_id dat) d =
     purchase_handleSubmit trig invoiceError page new_id d dat"
| "apply_operation (RecordTransformation trig transformationError page new_id dat) d =
     transformation_handleSubmit trig transformationError page new_id d dat"
| "apply_operation (RecordWaste trig page new_id dat) d =
     waste_handleSubmit trig page new_id d dat"
| "apply_operation (AdjustInventory adjustmentError updateError page now dat) d =
     adjust_handleSubmit adjustmentError updateError page now d dat"
| "apply_operation (CompleteAudit trig confirmed page now) d =
     handleCompleteAudit trig confirmed page now d"

text \<open>The store after a sequence of operations, whatever each of them ended with.\<close>

definition run :: "operation list \<Rightarrow> db \<Rightarrow> db" where
  "run ops d = fold (\<lambda>op d'. snd (apply_operation op d')) ops d"

definition nonneg :: "InventoryItem list \<Rightarrow> bool" where
  "nonneg inventory \<longleftrightarrow> list_all (\<lambda>e. ii_quantity e \<ge> 0) inventory"

text \<open>
  A trigger keeps the ledger non-negative when, on a store whose quantities are all
  non-negative, it never returns a negative quantity.
\<close>

definition keeps_nonneg :: "'r trigger \<Rightarrow> bool" where
  "keeps_nonneg trig \<longleftrightarrow>
     (\<forall>r d inventory. nonneg (inventory_items d) \<longrightarrow> trig r d = Inr inventory \<longrightarrow>
        nonneg inventory)"



section \<open>Example stores and forms\<close>

text \<open>A statement on which the store has installed no trigger leaves the inventory as it is.\<close>

definition no_trigger :: "'r trigger" where
  "no_trigger r d = Inr (inventory_items d)"

text \<open>A store that rejects the statement.\<close>

definition rejecting_trigger :: "'r trigger" where
  "rejecting_trigger r d = Inl (BackendError ''rejected'')"

definition row_id0 :: "string \<Rightarrow> string \<Rightarrow> string" where
  "row_id0 productId branchId = productId @ ''@'' @ branchId"

definition admin :: User where
  "admin = \<lparr>user_id = ''u1'', user_role = ''admin'', user_branch_id = None\<rparr>"

definition empty_db :: db where
  "empty_db = \<lparr>products = [],
               inventory_items = [], inventory_adjustments = [], purchase_invoices = [],
               purchase_items = [], transformations = [], transformation_items = [],
               waste = [], inventory_audits = [], inventory_audit_items = []\<rparr>"

text \<open>
  The store with the product P1, whose only ledger entry holds \<open>q\<close> units of it at branch
  B1, at cost \<open>c\<close>.
\<close>

definition ledger_db :: "real \<Rightarrow> real \<Rightarrow> db" where
  "ledger_db q c =
     empty_db\<lparr>products :=
                [\<lparr>prod_id = ''P1'', prod_name = ''flour'', prod_sku = ''FL-1'',
                  prod_unit = ''kg''\<rparr>],
              inventory_items :=
                [\<lparr>ii_id = ''i1'', ii_product_id = ''P1'', ii_branch_id = ''B1'',
                  ii_quantity = q, ii_average_cost = c, ii_updated_at = 0\<rparr>]\<rparr>"

text \<open>
  The store with the ledger at 10, after a manual adjustment to 4 made at time 1 from the
  page loaded for the entry.
\<close>

definition adjusted_db :: db where
  "adjusted_db =
     snd (adjust_handleSubmit None None (fetchInventoryItem (ledger_db 10 5) ''i1'') 1
            (ledger_db 10 5) \<lparr>adjf_quantity = 4, adjf_reason = ''recount''\<rparr>)"

text \<open>A purchase invoice for branch B1 with the single item: \<open>q\<close> units of P1 at \<open>p\<close>, 15% VAT.\<close>

definition purchase_form :: "real \<Rightarrow> real \<Rightarrow> PurchaseInvoiceFormValues" where
  "purchase_form q p =
     \<lparr>pf_invoice_number = ''INV-1'', pf_supplier = ''S'', pf_branch_id = ''B1'',
      pf_items = [\<lparr>pif_product_id = ''P1'', pif_quantity = q, pif_unit_price = p,
                   pif_vat_percentage = 15,
                   pif_total_price = calculateTotalWithVAT (q * p) (15 / 100)\<rparr>]\<rparr>"

text \<open>A waste record of \<open>q\<close> units of P1 at branch B1.\<close>

definition waste_form :: "real \<Rightarrow> WasteFormValues" where
  "waste_form q =
     \<lparr>wf_reference_number = ''WASTE-1'', wf_branch_id = ''B1'', wf_product_id = ''P1'',
      wf_quantity = q, wf_reason = ''damage'', wf_notes = None\<rparr>"

text \<open>A transformation at branch B1 that consumes \<open>q\<close> units of P1 to make one unit of P2.\<close>

definition transformation_form :: "real \<Rightarrow> TransformationFormValues" where
  "transformation_form q =
     \<lparr>trf_reference_number = ''TRANS-1'', trf_branch_id = ''B1'',
      trf_target_product_id = ''P2'', trf_target_quantity = 1, trf_notes = None,
      trf_source_items = [\<lparr>trif_product_id = ''P1'', trif_quantity = q,
                           trif_cost_per_unit = 10, trif_total_cost = 10 * q\<rparr>]\<rparr>"

text \<open>A store with one purchase invoice, one transformation and one waste record.\<close>

definition documents_db :: db where
  "documents_db =
     (ledger_db 10 5)
       \<lparr>purchase_invoices :=
          [\<lparr>pinv_id = ''inv1'', pinv_invoice_number = ''INV-1'', pinv_supplier = ''S'',
            pinv_branch_id = ''B1'', pinv_total_amount = 115 / 2, pinv_vat_amount = 15 / 2,
            pinv_created_by = Some ''u1''\<rparr>],
        purchase_items :=
          [\<lparr>pit_purchase_invoice_id = ''inv1'', pit_product_id = ''P1'', pit_quantity = 10,
            pit_unit_price = 5, pit_vat_percentage = 15, pit_total_price = 115 / 2\<rparr>],
        transformations :=
          [\<lparr>tr_id = ''t1'', tr_reference_number = ''TRANS-1'', tr_branch_id = ''B1'',
            tr_target_product_id = ''P2'', tr_target_quantity = 1, tr_total_cost = 10,
            tr_notes = None, tr_created_by = Some ''u1''\<rparr>],
        waste :=
          [\<lparr>w_id = ''w1'', w_reference_number = ''WASTE-1'', w_branch_id = ''B1'',
            w_product_id = ''P1'', w_quantity = 2, w_cost = 10, w_reason = ''damage'',
            w_notes = None, w_created_by = Some ''u1''\<rparr>]\<rparr>"

text \<open>
  An audit in progress at branch B1 whose single item expects 15 units of P1 and is not
  counted yet, and the edit page showing it.
\<close>

definition audit_item0 :: InventoryAuditItem where
  "audit_item0 = \<lparr>ai_id = ''it1'', ai_audit_id = ''A1'', ai_product_id = ''P1'',
                   ai_expected_quantity = 15, ai_actual_quantity = None,
                   ai_difference = None, ai_notes = None\<rparr>"

definition audit_db :: db where
  "audit_db =
     (ledger_db 15 3)
       \<lparr>inventory_audits :=
          [\<lparr>au_id = ''A1'', au_branch_id = ''B1'', au_status = in_progress,
            au_completed_at = None, au_completed_by = None,
            au_updated_at = None, au_updated_by = None\<rparr>],
        inventory_audit_items := [audit_item0]\<rparr>"

definition audit_page :: EditInventoryAuditPage where
  "audit_page = \<lparr>eap_auditId = ''A1'', eap_auditItems = [audit_item0], eap_user = Some admin\<rparr>"

text \<open>Entering the count \<open>v\<close> for the item, then completing the audit at time 1.\<close>

definition count_then_complete :: "real \<Rightarrow> outcome" where
  "count_then_complete v =
     (let (e, page1, d1) = handleActualQuantityChange None audit_page audit_db ''it1'' v
      in handleCompleteAudit (audit_completion_trigger row_id0 1) True page1 1 d1)"

section \<open>Properties of the cost model\<close>

text \<open>
  C2. \<open>calculateAverageCost\<close> returns 0 when both quantities are 0; otherwise it returns the
  quotient of \<open>currentQuantity * currentAverageCost + newQuantity * newCost\<close> by
  \<open>currentQuantity + newQuantity\<close>: the real quotient when the divisor is not zero, and the
  JavaScript value of that same division when it is.
\<close>

theorem calculateAverageCost_formula:
  "(cq = 0 \<and> nq = 0 \<longrightarrow> calculateAverageCost cq cc nq nc = Fin 0) \<and>
   (cq + nq \<noteq> 0 \<longrightarrow>
      calculateAverageCost cq cc nq nc = Fin ((cq * cc + nq * nc) / (cq + nq))) \<and>
   (\<not> (cq = 0 \<and> nq = 0) \<longrightarrow>
      calculateAverageCost cq cc nq nc = js_div (cq * cc + nq * nc) (cq + nq))"
  by (auto simp: calculateAverageCost_def js_div_def Let_def)

theorem calculateAverageCost_formula_witness:
  "calculateAverageCost 0 7 0 9 = Fin 0 \<and>
   calculateAverageCost 50 4 50 6 = Fin 5 \<and>
   calculateAverageCost 50 4 50 6 = js_div (50 * 4 + 50 * 6) (50 + 50)"
  using calculateAverageCost_formula [of 0 0 7 9]
        calculateAverageCost_formula [of 50 50 4 6]
  by (simp add: js_div_def)

text \<open>
  C3, as stated, fails when the quantity is 0: blending into a cold ledger with zero
  incoming quantity returns 0, not the cost.
\<close>

theorem blend_zero_quantity_counterexample:
  "calculateAverageCost 0 0 0 5 \<noteq> Fin 5 \<and> calculateAverageCost 0 5 0 1 \<noteq> Fin 5"
  by (simp add: calculateAverageCost_def)

text \<open>
  C3, amended. For every quantity \<open>q\<close> other than 0 and all costs \<open>c\<close> and \<open>x\<close>,
  blending \<open>q\<close> at \<open>c\<close> into an empty ledger and blending zero incoming quantity at \<open>x\<close>
  into \<open>q\<close> at \<open>c\<close> return the same value, the quotient \<open>(q * c) / q\<close> as the code
  evaluates it, whatever the incoming cost \<open>x\<close> is. For \<open>q = 0\<close> both blends return 0.
\<close>

theorem blend_zero_incoming:
  "(q \<noteq> 0 \<longrightarrow>
      calculateAverageCost 0 0 q c = js_div (q * c) q \<and>
      calculateAverageCost q c 0 x = js_div (q * c) q \<and>
      calculateAverageCost q c 0 x = calculateAverageCost 0 0 q c) \<and>
   (q = 0 \<longrightarrow> calculateAverageCost 0 0 q c = Fin 0 \<and> calculateAverageCost q c 0 x = Fin 0)"
  by (simp add: calculateAverageCost_def js_div_def)

theorem blend_zero_incoming_witness:
  "calculateAverageCost 0 0 3 (1 / 10) = js_div (3 * (1 / 10)) 3 \<and>
   calculateAverageCost 3 (1 / 10) 0 7 = js_div (3 * (1 / 10)) 3 \<and>
   calculateAverageCost 3 (1 / 10) 0 7 = calculateAverageCost 0 0 3 (1 / 10) \<and>
   calculateAverageCost 0 0 0 5 = Fin 0 \<and> calculateAverageCost 0 5 0 99 = Fin 0"
  using blend_zero_incoming [of 3 "1 / 10" 7] blend_zero_incoming [of 0 5 99]
  by simp

text \<open>
  C10. The only guard of \<open>calculateAverageCost\<close> is the case where both quantities are 0.
  Whenever the quantities cancel without both being 0 (for example 5 and -5), the division
  by the zero total is carried out and the result is not a finite number, hence not a
  non-negative cost: it is \<open>Infinity\<close>, \<open>-Infinity\<close> or \<open>NaN\<close>, by the sign of the total value.
\<close>

theorem calculateAverageCost_unguarded_division:
  "cq + nq = 0 \<Longrightarrow> \<not> (cq = 0 \<and> nq = 0) \<Longrightarrow>
     calculateAverageCost cq cc nq nc = js_div (cq * cc + nq * nc) 0 \<and>
     calculateAverageCost cq cc nq nc \<in> {PosInf, NegInf, NaN} \<and>
     (\<forall>r. calculateAverageCost cq cc nq nc \<noteq> Fin r)"
  by (auto simp: calculateAverageCost_def js_div_def Let_def)

theorem calculateAverageCost_unguarded_division_witness:
  "(5::real) + (-5) = 0 \<and> \<not> ((5::real) = 0 \<and> (-5::real) = 0) \<and>
   calculateAverageCost 5 2 (-5) 3 = NegInf \<and>
   calculateAverageCost 5 3 (-5) 2 = PosInf \<and>
   calculateAverageCost 5 2 (-5) 2 = NaN"
  using calculateAverageCost_unguarded_division [of 5 "-5" 2 3]
        calculateAverageCost_unguarded_division [of 5 "-5" 3 2]
        calculateAverageCost_unguarded_division [of 5 "-5" 2 2]
  by (simp add: js_div_def)

section \<open>Lookups\<close>

lemma find_Some_holds: "find P xs = Some y \<Longrightarrow> P y \<and> y \<in> set xs"
  by (induction xs) (auto split: if_splits)

lemma find_first_exists: "\<exists>x\<in>set xs. P x \<Longrightarrow> \<exists>y. find P xs = Some y"
  by (induction xs) auto

lemma find_append_None: "find P xs = None \<Longrightarrow> find P (xs @ ys) = find P ys"
  by (induction xs) (auto split: if_splits)

lemma waste_getAvailableInventory_ledger:
  "productId \<noteq> [] \<Longrightarrow> branchId \<noteq> [] \<Longrightarrow>
   waste_getAvailableInventory inventory productId branchId =
     ledger_quantity inventory productId branchId"
  by (simp add: waste_getAvailableInventory_def ledger_quantity_def ledger_entry_def)

lemma transformation_getAvailableInventory_ledger:
  "branchId \<noteq> [] \<Longrightarrow>
   transformation_getAvailableInventory inventory branchId productId =
     ledger_quantity inventory productId branchId"
  by (simp add: transformation_getAvailableInventory_def ledger_quantity_def ledger_entry_def)

lemmas example_defs =
  empty_db_def ledger_db_def purchase_form_def waste_form_def transformation_form_def
  documents_db_def audit_item0_def audit_db_def audit_page_def admin_def row_id0_def
  no_trigger_def rejecting_trigger_def

lemmas ledger_defs =
  ledger_quantity_def ledger_entry_def getOrCreate_def put_entry_def

section \<open>Purchases\<close>

lemma purchase_totals_fold:
  "fold (\<lambda>item (subTotal, vatAmount).
           if pif_quantity item \<noteq> 0 \<and> pif_unit_price item \<noteq> 0 then
             let itemSubtotal = pif_quantity item * pif_unit_price item;
                 itemVAT = calculateVAT itemSubtotal (pif_vat_percentage item / 100)
             in (subTotal + itemSubtotal, vatAmount + itemVAT)
           else (subTotal, vatAmount))
        items (s, v) =
   (s + (\<Sum>i\<leftarrow>items. pif_quantity i * pif_unit_price i),
    v + (\<Sum>i\<leftarrow>items. calculateVAT (pif_quantity i * pif_unit_price i)
                        (pif_vat_percentage i / 100)))"
  by (induction items arbitrary: s v) (auto simp: Let_def calculateVAT_def)

lemma purchase_effect_totalAmount:
  "pp_totalAmount (purchase_effect items page) =
     (\<Sum>i\<leftarrow>items. calculateTotalWithVAT (pif_quantity i * pif_unit_price i)
                      (pif_vat_percentage i / 100))"
  by (simp add: purchase_effect_def purchase_totals_def purchase_totals_fold
                calculateTotalWithVAT_def sum_list_addf)

lemma purchase_onSubmit_invoices:
  "purchase_invoices (snd (purchase_onSubmit trig None page new_id d dat)) =
   purchase_invoices d @
     [\<lparr>pinv_id = new_id,
       pinv_invoice_number = pf_invoice_number dat,
       pinv_supplier = pf_supplier dat,
       pinv_branch_id = pf_branch_id dat,
       pinv_total_amount = pp_totalAmount page,
       pinv_vat_amount = pp_totalVAT page,
       pinv_created_by = map_option user_id (pp_user page)\<rparr>]"
  by (simp add: purchase_onSubmit_def Let_def split: sum.splits)

text \<open>
  C4 fails on the page as the user leaves it. The totals effect, when it runs on a list of
  items, does set the page's \<open>totalAmount\<close> to the sum over the items of
  \<open>totalWithVat(qty * unitPrice, vatPct / 100)\<close>, 57.50 for 10 units at 5.00 with 15% VAT.
  But \<open>onSubmit\<close> stores as invoice total that state as it is, and never computes it from
  the submitted items: on a page whose effect last ran when the page was mounted, on the
  default row, the state is 0, and that purchase is stored with the invoice total 0.
\<close>

theorem purchase_total_is_page_state:
  "map pinv_total_amount
     (purchase_invoices (snd (purchase_onSubmit trig None page new_id d dat))) =
   map pinv_total_amount (purchase_invoices d) @ [pp_totalAmount page] \<and>
   pp_totalAmount (purchase_effect items page) =
     (\<Sum>i\<leftarrow>items. calculateTotalWithVAT (pif_quantity i * pif_unit_price i)
                      (pif_vat_percentage i / 100)) \<and>
   pp_totalAmount (purchase_effect (pf_items (purchase_form 10 5)) page) = 115 / 2 \<and>
   pp_totalAmount (purchase_mount u) = 0 \<and>
   map pinv_total_amount
     (purchase_invoices
        (snd (purchase_onSubmit trig None (purchase_mount u) new_id empty_db
                (purchase_form 10 5)))) = [0]"
proof (intro conjI)
  show "map pinv_total_amount
     (purchase_invoices (snd (purchase_onSubmit trig None page new_id d dat))) =
   map pinv_total_amount (purchase_invoices d) @ [pp_totalAmount page]"
    by (simp add: purchase_onSubmit_invoices)
  show "pp_totalAmount (purchase_effect items page) =
     (\<Sum>i\<leftarrow>items. calculateTotalWithVAT (pif_quantity i * pif_unit_price i)
                      (pif_vat_percentage i / 100))"
    by (rule purchase_effect_totalAmount)
  show "pp_totalAmount (purchase_effect (pf_items (purchase_form 10 5)) page) = 115 / 2"
    by (simp add: purchase_effect_totalAmount purchase_form_def calculateTotalWithVAT_def
          calculateVAT_def)
  show mounted: "pp_totalAmount (purchase_mount u) = 0"
    by (simp add: purchase_mount_def purchase_effect_totalAmount purchase_defaultItems_def
          calculateTotalWithVAT_def calculateVAT_def)
  show "map pinv_total_amount
     (purchase_invoices
        (snd (purchase_onSubmit trig None (purchase_mount u) new_id empty_db
                (purchase_form 10 5)))) = [0]"
    by (simp add: purchase_onSubmit_invoices mounted empty_db_def)
qed

section \<open>Transformations\<close>

lemma transformation_rejects:
  assumes "\<exists>item \<in> set (trf_source_items dat).
             trif_quantity item >
               transformation_getAvailableInventory (tp_inventory page) (trf_branch_id dat)
                 (trif_product_id item)"
  shows "\<exists>a. transformation_onSubmit trig err page new_id d dat =
               (Some (InsufficientStock a), d)"
proof -
  from find_first_exists [OF assms] obtain y where
    "find (\<lambda>item. trif_quantity item >
             transformation_getAvailableInventory (tp_inventory page) (trf_branch_id dat)
               (trif_product_id item))
          (trf_source_items dat) = Some y"
    by blast
  then show ?thesis by (simp add: transformation_onSubmit_def)
qed

lemmas transformation_eval_defs =
  transformation_onSubmit_def transformation_mount_def transformation_effect_def
  transformation_totalCost_def transformation_defaultItems_def
  transformation_getAvailableInventory_def or_null_def Let_def

text \<open>
  C5, as stated, fails on a page whose inventory is older than the ledger. The page was
  mounted when the ledger held 10 units; the ledger now holds 5 and the transformation asks
  for 8. The availability check passes against the page's 10: on a store that accepts the
  statements the transformation and its item are committed, and on a store that rejects
  the insert of the items the row of the transformation still stays.
\<close>

theorem transformation_stale_page_counterexample:
  "tp_inventory (transformation_mount (ledger_db 10 10) (Some admin)) =
     inventory_items (ledger_db 10 10) \<and>
   ledger_quantity (inventory_items (ledger_db 5 10)) ''P1'' ''B1'' = 5 \<and>
   map trif_quantity (trf_source_items (transformation_form 8)) = [8] \<and>
   fst (transformation_onSubmit no_trigger None
          (transformation_mount (ledger_db 10 10) (Some admin)) ''t1'' (ledger_db 5 10)
          (transformation_form 8)) = None \<and>
   map tr_id
     (transformations
        (snd (transformation_onSubmit no_trigger None
                (transformation_mount (ledger_db 10 10) (Some admin)) ''t1'' (ledger_db 5 10)
                (transformation_form 8)))) = [''t1''] \<and>
   map tri_quantity
     (transformation_items
        (snd (transformation_onSubmit no_trigger None
                (transformation_mount (ledger_db 10 10) (Some admin)) ''t1'' (ledger_db 5 10)
                (transformation_form 8)))) = [8] \<and>
   fst (transformation_onSubmit rejecting_trigger None
          (transformation_mount (ledger_db 10 10) (Some admin)) ''t1'' (ledger_db 5 10)
          (transformation_form 8)) = Some (BackendError ''rejected'') \<and>
   map tr_id
     (transformations
        (snd (transformation_onSubmit rejecting_trigger None
                (transformation_mount (ledger_db 10 10) (Some admin)) ''t1'' (ledger_db 5 10)
                (transformation_form 8)))) = [''t1'']"
  by (simp add: transformation_eval_defs example_defs ledger_defs)

text \<open>
  C5, amended. For every submission of a transformation, if some source item asks for more
  than the quantity that the inventory held by the page, loaded when the page was mounted,
  records for its product at the branch (0 when it has no row or no branch is chosen), the
  whole transformation is rejected with \<open>InsufficientStock\<close> and the store is left exactly
  as it was: no ledger entry changes and neither the transformation nor any of its items
  is committed. Hence anything is written, and any deduction made, only when every source
  item passes that check.
\<close>

theorem transformation_checks_page_inventory:
  "((\<exists>item \<in> set (trf_source_items dat).
       trif_quantity item >
         transformation_getAvailableInventory (tp_inventory page) (trf_branch_id dat)
           (trif_product_id item))
     \<longrightarrow> (\<exists>a. transformation_onSubmit trig err page new_id d dat =
                (Some (InsufficientStock a), d)))
   \<and> (snd (transformation_onSubmit trig err page new_id d dat) \<noteq> d
      \<longrightarrow> (\<forall>item \<in> set (trf_source_items dat).
             trif_quantity item \<le>
               transformation_getAvailableInventory (tp_inventory page) (trf_branch_id dat)
                 (trif_product_id item)))
   \<and> (trf_branch_id dat \<noteq> []
      \<longrightarrow> transformation_getAvailableInventory (tp_inventory page) (trf_branch_id dat) p =
           ledger_quantity (tp_inventory page) p (trf_branch_id dat))
   \<and> (trf_branch_id dat = []
      \<longrightarrow> transformation_getAvailableInventory (tp_inventory page) (trf_branch_id dat) p = 0)"
proof (intro conjI impI)
  assume "\<exists>item \<in> set (trf_source_items dat).
       trif_quantity item >
         transformation_getAvailableInventory (tp_inventory page) (trf_branch_id dat)
           (trif_product_id item)"
  then show "\<exists>a. transformation_onSubmit trig err page new_id d dat =
                (Some (InsufficientStock a), d)"
    by (rule transformation_rejects)
next
  assume changed: "snd (transformation_onSubmit trig err page new_id d dat) \<noteq> d"
  show "\<forall>item \<in> set (trf_source_items dat).
             trif_quantity item \<le>
               transformation_getAvailableInventory (tp_inventory page) (trf_branch_id dat)
                 (trif_product_id item)"
  proof (rule ccontr)
    assume "\<not> ?thesis"
    then have "\<exists>item \<in> set (trf_source_items dat).
       trif_quantity item >
         transformation_getAvailableInventory (tp_inventory page) (trf_branch_id dat)
           (trif_product_id item)"
      by (auto simp: not_le)
    from transformation_rejects [OF this, of trig err new_id d] changed show False by auto
  qed
next
  assume "trf_branch_id dat \<noteq> []"
  then show "transformation_getAvailableInventory (tp_inventory page) (trf_branch_id dat) p =
           ledger_quantity (tp_inventory page) p (trf_branch_id dat)"
    by (rule transformation_getAvailableInventory_ledger)
next
  assume "trf_branch_id dat = []"
  then show "transformation_getAvailableInventory (tp_inventory page) (trf_branch_id dat) p = 0"
    by (simp add: transformation_getAvailableInventory_def)
qed

theorem transformation_checks_page_inventory_witness:
  "map trif_quantity (trf_source_items (transformation_form 8)) = [8] \<and>
   transformation_getAvailableInventory
     (tp_inventory (transformation_mount (ledger_db 5 10) (Some admin))) ''B1'' ''P1'' = 5 \<and>
   ledger_quantity (tp_inventory (transformation_mount (ledger_db 5 10) (Some admin)))
     ''P1'' ''B1'' = 5 \<and>
   transformation_onSubmit no_trigger None (transformation_mount (ledger_db 5 10) (Some admin))
     ''t1'' (ledger_db 9 10) (transformation_form 8) =
     (Some (InsufficientStock 5), ledger_db 9 10) \<and>
   snd (transformation_onSubmit no_trigger None
          (transformation_mount (ledger_db 5 10) (Some admin))
          ''t1'' (ledger_db 5 10) (transformation_form 3)) \<noteq> ledger_db 5 10 \<and>
   map trif_quantity (trf_source_items (transformation_form 3)) = [3] \<and>
   transformation_getAvailableInventory
     (tp_inventory (transformation_mount (ledger_db 5 10) (Some admin))) [] ''P1'' = 0"
  using transformation_checks_page_inventory
          [of "transformation_form 8" "transformation_mount (ledger_db 5 10) (Some admin)"
              no_trigger None "''t1''" "ledger_db 9 10" "''P1''"]
        transformation_checks_page_inventory
          [of "transformation_form 3" "transformation_mount (ledger_db 5 10) (Some admin)"
              no_trigger None "''t1''" "ledger_db 5 10" "''P1''"]
        transformation_checks_page_inventory
          [of "(transformation_form 3)\<lparr>trf_branch_id := []\<rparr>"
              "transformation_mount (ledger_db 5 10) (Some admin)"
              no_trigger None "''t1''" "ledger_db 5 10" "''P1''"]
  by (simp add: transformation_eval_defs example_defs ledger_defs)

section \<open>Waste\<close>

lemmas waste_eval_defs =
  waste_onSubmit_def waste_handleSubmit_def wasteSchema_def waste_page_def
  waste_getAvailableInventory_def waste_selectedProductCost_def waste_totalCost_def
  or_null_def Let_def

text \<open>
  C6, as stated, fails on a page whose inventory is older than the ledger. The page was
  mounted when the ledger held 10 units; the ledger now holds 5 and the waste asks for 8.
  The availability check passes against the page's 10: on a store that accepts the insert
  the waste is recorded, and on a store that rejects it the error is the store's, not
  \<open>InsufficientStock\<close>.
\<close>

theorem waste_stale_page_counterexample:
  "wp_inventory (waste_page (ledger_db 10 10) (Some admin) (waste_form 8)) =
     inventory_items (ledger_db 10 10) \<and>
   ledger_quantity (inventory_items (ledger_db 5 10)) ''P1'' ''B1'' = 5 \<and>
   wf_quantity (waste_form 8) = 8 \<and>
   fst (waste_onSubmit no_trigger (waste_page (ledger_db 10 10) (Some admin) (waste_form 8))
          ''w1'' (ledger_db 5 10) (waste_form 8)) = None \<and>
   map w_quantity
     (waste (snd (waste_onSubmit no_trigger
                    (waste_page (ledger_db 10 10) (Some admin) (waste_form 8))
                    ''w1'' (ledger_db 5 10) (waste_form 8)))) = [8] \<and>
   waste_onSubmit rejecting_trigger (waste_page (ledger_db 10 10) (Some admin) (waste_form 8))
     ''w1'' (ledger_db 5 10) (waste_form 8) =
     (Some (BackendError ''rejected''), ledger_db 5 10)"
  by (simp add: waste_eval_defs example_defs ledger_defs)

text \<open>
  C6, amended. For every submission of a waste record whose quantity exceeds the quantity
  that the inventory held by the page, loaded when the page was mounted, records for the
  product at the branch (0 when it has no row), the operation fails with
  \<open>InsufficientStock\<close> before anything is written, and the store, the ledger entry
  included, is left unchanged. With the page loaded from the ledger at quantity 5 and
  average cost 10.00, recording a waste of 8 fails and the ledger stays as it is.
\<close>

theorem waste_checks_page_inventory:
  "(wf_quantity dat >
      waste_getAvailableInventory (wp_inventory page) (wf_product_id dat) (wf_branch_id dat)
    \<longrightarrow> waste_onSubmit trig page new_id d dat =
          (Some (InsufficientStock
                   (waste_getAvailableInventory (wp_inventory page) (wf_product_id dat)
                      (wf_branch_id dat))), d)) \<and>
   (wf_product_id dat \<noteq> [] \<and> wf_branch_id dat \<noteq> []
    \<longrightarrow> waste_getAvailableInventory (wp_inventory page) (wf_product_id dat) (wf_branch_id dat) =
          ledger_quantity (wp_inventory page) (wf_product_id dat) (wf_branch_id dat))"
  by (simp add: waste_onSubmit_def waste_getAvailableInventory_ledger Let_def)

theorem waste_checks_page_inventory_witness:
  "map (\<lambda>e. (ii_quantity e, ii_average_cost e))
     (wp_inventory (waste_page (ledger_db 5 10) (Some admin) (waste_form 8))) = [(5, 10)] \<and>
   wf_product_id (waste_form 8) \<noteq> [] \<and> wf_branch_id (waste_form 8) \<noteq> [] \<and>
   ledger_quantity (wp_inventory (waste_page (ledger_db 5 10) (Some admin) (waste_form 8)))
     ''P1'' ''B1'' = 5 \<and>
   wf_quantity (waste_form 8) > 5 \<and>
   waste_onSubmit no_trigger (waste_page (ledger_db 5 10) (Some admin) (waste_form 8)) ''w1''
     (ledger_db 5 10) (waste_form 8) = (Some (InsufficientStock 5), ledger_db 5 10) \<and>
   map (\<lambda>e. (ii_quantity e, ii_average_cost e)) (inventory_items (ledger_db 5 10)) = [(5, 10)]"
  using waste_checks_page_inventory
          [where dat = "waste_form 8"
             and page = "waste_page (ledger_db 5 10) (Some admin) (waste_form 8)"
             and trig = no_trigger and new_id = "''w1''" and d = "ledger_db 5 10"]
  by (simp add: waste_page_def waste_getAvailableInventory_def example_defs ledger_defs)

section \<open>Deleting documents\<close>

text \<open>
  C7, as stated, fails: deleting a purchase invoice removes the invoice row from the store
  and from the displayed list, and the handler writes no inverse movement anywhere.
\<close>

theorem delete_purchase_erases_record_counterexample:
  "fst (fst (handleDeletePurchase no_trigger True (purchase_invoices documents_db)
               documents_db ''inv1'')) = None \<and>
   map pinv_id (purchase_invoices documents_db) = [''inv1''] \<and>
   purchase_invoices
     (snd (fst (handleDeletePurchase no_trigger True (purchase_invoices documents_db)
                  documents_db ''inv1''))) = [] \<and>
   snd (handleDeletePurchase no_trigger True (purchase_invoices documents_db)
          documents_db ''inv1'') = [] \<and>
   inventory_adjustments
     (snd (fst (handleDeletePurchase no_trigger True (purchase_invoices documents_db)
                  documents_db ''inv1''))) = [] \<and>
   purchase_items
     (snd (fst (handleDeletePurchase no_trigger True (purchase_invoices documents_db)
                  documents_db ''inv1''))) = purchase_items documents_db"
  by (simp add: handleDeletePurchase_def example_defs)

text \<open>
  C7, amended. Deleting a purchase invoice, a transformation or a waste record from the UI
  does nothing unless the user confirms. Once confirmed, the handler deletes the rows with
  that identifier from the document's table and drops them from the displayed list; it
  writes no other table, so it emits no inverse movement and keeps no historical record,
  and the inventory becomes whatever the trigger of the delete statement returns. When the
  trigger rejects the statement, the store and the list stay as they were.
\<close>

theorem delete_removes_record:
  "(\<not> confirmed \<longrightarrow>
      handleDeletePurchase trig confirmed purchases d i = ((None, d), purchases) \<and>
      handleDeleteTransformation trig confirmed trs d i = ((None, d), trs) \<and>
      handleDeleteWaste trig confirmed ws d i = ((None, d), ws)) \<and>
   (confirmed \<and> trig i d = Inl e \<longrightarrow>
      handleDeletePurchase trig confirmed purchases d i = ((Some e, d), purchases) \<and>
      handleDeleteTransformation trig confirmed trs d i = ((Some e, d), trs) \<and>
      handleDeleteWaste trig confirmed ws d i = ((Some e, d), ws)) \<and>
   (confirmed \<and> trig i d = Inr new_inventory \<longrightarrow>
      handleDeletePurchase trig confirmed purchases d i =
        ((None, d\<lparr>purchase_invoices := filter (\<lambda>r. pinv_id r \<noteq> i) (purchase_invoices d),
                   inventory_items := new_inventory\<rparr>),
         filter (\<lambda>r. pinv_id r \<noteq> i) purchases) \<and>
      (\<forall>r \<in> set (purchase_invoices
                    (snd (fst (handleDeletePurchase trig confirmed purchases d i)))).
         pinv_id r \<noteq> i) \<and>
      handleDeleteTransformation trig confirmed trs d i =
        ((None, d\<lparr>transformations := filter (\<lambda>r. tr_id r \<noteq> i) (transformations d),
                   inventory_items := new_inventory\<rparr>),
         filter (\<lambda>r. tr_id r \<noteq> i) trs) \<and>
      (\<forall>r \<in> set (transformations
                    (snd (fst (handleDeleteTransformation trig confirmed trs d i)))).
         tr_id r \<noteq> i) \<and>
      handleDeleteWaste trig confirmed ws d i =
        ((None, d\<lparr>waste := filter (\<lambda>r. w_id r \<noteq> i) (waste d),
                   inventory_items := new_inventory\<rparr>),
         filter (\<lambda>r. w_id r \<noteq> i) ws) \<and>
      (\<forall>r \<in> set (waste (snd (fst (handleDeleteWaste trig confirmed ws d i)))).
         w_id r \<noteq> i))"
  by (simp add: handleDeletePurchase_def handleDeleteTransformation_def handleDeleteWaste_def)

theorem delete_removes_record_witness:
  "handleDeletePurchase no_trigger False (purchase_invoices documents_db) documents_db ''inv1'' =
     ((None, documents_db), purchase_invoices documents_db) \<and>
   handleDeletePurchase (\<lambda>i d. Inl (BackendError ''rejected'')) True
       (purchase_invoices documents_db) documents_db ''inv1'' =
     ((Some (BackendError ''rejected''), documents_db), purchase_invoices documents_db) \<and>
   no_trigger ''inv1'' documents_db = Inr (inventory_items documents_db) \<and>
   handleDeletePurchase no_trigger True (purchase_invoices documents_db) documents_db ''inv1'' =
     ((None, documents_db\<lparr>purchase_invoices := []\<rparr>), []) \<and>
   handleDeleteTransformation no_trigger True (transformations documents_db) documents_db ''t1'' =
     ((None, documents_db\<lparr>transformations := []\<rparr>), []) \<and>
   handleDeleteWaste no_trigger True (waste documents_db) documents_db ''w1'' =
     ((None, documents_db\<lparr>waste := []\<rparr>), [])"
  using delete_removes_record
          [of False no_trigger "purchase_invoices documents_db" documents_db "''inv1''"]
        delete_removes_record
          [of True "\<lambda>i d. Inl (BackendError ''rejected'')" "purchase_invoices documents_db"
              documents_db "''inv1''" _ _ "BackendError ''rejected''"]
        delete_removes_record
          [of True no_trigger "purchase_invoices documents_db" documents_db "''inv1''"
              _ _ _ "inventory_items documents_db"]
        delete_removes_record
          [of True no_trigger _ documents_db "''t1''" "transformations documents_db"
              _ _ "inventory_items documents_db"]
        delete_removes_record
          [of True no_trigger _ documents_db "''w1''" _ "waste documents_db"
              _ "inventory_items documents_db"]
  by (simp add: example_defs)

section \<open>Manual adjustment\<close>

lemma fetchInventoryItem_Some:
  assumes "ap_inventoryItem (fetchInventoryItem d i) = Some item"
  shows "filter (\<lambda>r. ii_id r = i) (inventory_items d) = [item]"
  using assms by (auto simp: fetchInventoryItem_def split: list.splits)

lemma fetchInventoryItem_id: "ap_inventoryItemId (fetchInventoryItem d i) = i"
  by (simp add: fetchInventoryItem_def split: list.splits)

lemmas adjust_eval_defs =
  adjust_handleSubmit_def adjust_onSubmit_def adjustInventorySchema_def
  fetchInventoryItem_def adjusted_db_def Let_def

text \<open>
  C9, as stated, fails on a page whose item is older than the ledger. The page was loaded
  when the entry held 5 units; the ledger now holds 9 and is adjusted to 12. The
  adjustment row records the previous quantity 5 of the page, not the 9 the entry held:
  the recorded delta is 7 where the ledger moved by 3.
\<close>

theorem adjust_stale_previous_quantity_counterexample:
  "map ii_quantity (inventory_items (ledger_db 9 10)) = [9] \<and>
   fst (adjust_onSubmit None None (fetchInventoryItem (ledger_db 5 10) ''i1'') 7
          (ledger_db 9 10) \<lparr>adjf_quantity = 12, adjf_reason = ''recount''\<rparr>) = None \<and>
   map ii_quantity
     (inventory_items
        (snd (adjust_onSubmit None None (fetchInventoryItem (ledger_db 5 10) ''i1'') 7
                (ledger_db 9 10) \<lparr>adjf_quantity = 12, adjf_reason = ''recount''\<rparr>))) = [12] \<and>
   inventory_adjustments
     (snd (adjust_onSubmit None None (fetchInventoryItem (ledger_db 5 10) ''i1'') 7
             (ledger_db 9 10) \<lparr>adjf_quantity = 12, adjf_reason = ''recount''\<rparr>)) =
     [\<lparr>adj_inventory_item_id = ''i1'', adj_previous_quantity = 5, adj_new_quantity = 12,
       adj_reason = ''recount''\<rparr>]"
  by (simp add: adjust_eval_defs example_defs)

text \<open>
  C9, amended. When both of its calls to the store succeed, the manual adjustment replaces
  the quantity of the ledger entry with the given value and sets its \<open>updated_at\<close>,
  leaving its average cost, its identifier, product and branch, and every other entry
  unchanged; and it records the adjustment as a row of \<open>inventory_adjustments\<close> holding,
  as previous quantity, the quantity of the item as the page loaded it, and the new
  quantity. No other table changes. On a page loaded from the store as it is at
  submission, that previous quantity is the one the entry holds, so the row captures the
  signed delta. Without a loaded item, or when the store rejects the insert of the
  adjustment, nothing is written.
\<close>

theorem adjust_onSubmit_effect:
  "(ap_inventoryItem page = None \<longrightarrow>
      adjust_onSubmit adjustmentError updateError page now d dat = (None, d)) \<and>
   (ap_inventoryItem page = Some item \<and> adjustmentError = Some e \<longrightarrow>
      adjust_onSubmit adjustmentError updateError page now d dat = (Some e, d)) \<and>
   (ap_inventoryItem page = Some item \<longrightarrow>
      fst (adjust_onSubmit None None page now d dat) = None \<and>
      length (inventory_items (snd (adjust_onSubmit None None page now d dat))) =
        length (inventory_items d) \<and>
      (\<forall>k < length (inventory_items d).
         let r = inventory_items d ! k;
             r' = inventory_items (snd (adjust_onSubmit None None page now d dat)) ! k
         in (ii_id r = ap_inventoryItemId page \<longrightarrow>
               r' = r\<lparr>ii_quantity := adjf_quantity dat, ii_updated_at := now\<rparr> \<and>
               ii_quantity r' = adjf_quantity dat \<and> ii_updated_at r' = now \<and>
               ii_average_cost r' = ii_average_cost r \<and> ii_id r' = ii_id r \<and>
               ii_product_id r' = ii_product_id r \<and> ii_branch_id r' = ii_branch_id r) \<and>
            (ii_id r \<noteq> ap_inventoryItemId page \<longrightarrow> r' = r)) \<and>
      inventory_adjustments (snd (adjust_onSubmit None None page now d dat)) =
        inventory_adjustments d @
          [\<lparr>adj_inventory_item_id = ap_inventoryItemId page,
            adj_previous_quantity = ii_quantity item,
            adj_new_quantity = adjf_quantity dat, adj_reason = adjf_reason dat\<rparr>] \<and>
      (snd (adjust_onSubmit None None page now d dat))
        \<lparr>inventory_items := inventory_items d,
         inventory_adjustments := inventory_adjustments d\<rparr> = d) \<and>
   (page = fetchInventoryItem d i \<and> ap_inventoryItem page = Some item \<longrightarrow>
      ap_inventoryItemId page = i \<and>
      filter (\<lambda>r. ii_id r = i) (inventory_items d) = [item])"
proof (intro conjI impI)
  assume loaded: "page = fetchInventoryItem d i \<and> ap_inventoryItem page = Some item"
  then show "ap_inventoryItemId page = i"
    by (simp add: fetchInventoryItem_id)
  from loaded have "ap_inventoryItem (fetchInventoryItem d i) = Some item"
    by blast
  then show "filter (\<lambda>r. ii_id r = i) (inventory_items d) = [item]"
    by (rule fetchInventoryItem_Some)
qed (simp_all add: adjust_onSubmit_def Let_def)

theorem adjust_onSubmit_effect_witness:
  "ap_inventoryItem (fetchInventoryItem empty_db ''i1'') = None \<and>
   adjust_onSubmit None None (fetchInventoryItem empty_db ''i1'') 7 (ledger_db 5 10)
       \<lparr>adjf_quantity = 12, adjf_reason = ''recount''\<rparr> = (None, ledger_db 5 10) \<and>
   ap_inventoryItem (fetchInventoryItem (ledger_db 5 10) ''i1'') =
     Some \<lparr>ii_id = ''i1'', ii_product_id = ''P1'', ii_branch_id = ''B1'',
           ii_quantity = 5, ii_average_cost = 10, ii_updated_at = 0\<rparr> \<and>
   adjust_onSubmit (Some (BackendError ''rejected'')) None
       (fetchInventoryItem (ledger_db 5 10) ''i1'') 7 (ledger_db 5 10)
       \<lparr>adjf_quantity = 12, adjf_reason = ''recount''\<rparr> =
     (Some (BackendError ''rejected''), ledger_db 5 10) \<and>
   adjust_onSubmit None None (fetchInventoryItem (ledger_db 5 10) ''i1'') 7 (ledger_db 5 10)
       \<lparr>adjf_quantity = 12, adjf_reason = ''recount''\<rparr> =
     (None,
      (ledger_db 5 10)
        \<lparr>inventory_items :=
           [\<lparr>ii_id = ''i1'', ii_product_id = ''P1'', ii_branch_id = ''B1'',
             ii_quantity = 12, ii_average_cost = 10, ii_updated_at = 7\<rparr>],
         inventory_adjustments :=
           [\<lparr>adj_inventory_item_id = ''i1'', adj_previous_quantity = 5,
             adj_new_quantity = 12, adj_reason = ''recount''\<rparr>]\<rparr>) \<and>
   filter (\<lambda>r. ii_id r = ''i1'') (inventory_items (ledger_db 5 10)) =
     [\<lparr>ii_id = ''i1'', ii_product_id = ''P1'', ii_branch_id = ''B1'',
       ii_quantity = 5, ii_average_cost = 10, ii_updated_at = 0\<rparr>]"
  using adjust_onSubmit_effect
          [where page = "fetchInventoryItem empty_db ''i1''" and adjustmentError = None
             and updateError = None and now = 7 and d = "ledger_db 5 10"
             and dat = "\<lparr>adjf_quantity = 12, adjf_reason = ''recount''\<rparr>"]
        adjust_onSubmit_effect
          [where page = "fetchInventoryItem (ledger_db 5 10) ''i1''"
             and adjustmentError = "Some (BackendError ''rejected'')" and updateError = None
             and now = 7 and d = "ledger_db 5 10"
             and dat = "\<lparr>adjf_quantity = 12, adjf_reason = ''recount''\<rparr>"
             and item = "\<lparr>ii_id = ''i1'', ii_product_id = ''P1'', ii_branch_id = ''B1'',
                           ii_quantity = 5, ii_average_cost = 10, ii_updated_at = 0\<rparr>"
             and e = "BackendError ''rejected''" and i = "''i1''"]
  by (simp add: adjust_eval_defs example_defs)

text \<open>
  When the store rejects the update of the ledger, the adjustment row has already been
  written and stays, while the entry keeps its quantity.
\<close>

lemma adjust_onSubmit_update_rejected:
  "ap_inventoryItem page = Some item \<Longrightarrow>
   adjust_onSubmit None (Some e) page now d dat =
     (Some e,
      d\<lparr>inventory_adjustments := inventory_adjustments d @
           [\<lparr>adj_inventory_item_id = ap_inventoryItemId page,
             adj_previous_quantity = ii_quantity item,
             adj_new_quantity = adjf_quantity dat, adj_reason = adjf_reason dat\<rparr>]\<rparr>)"
  by (simp add: adjust_onSubmit_def Let_def)

section \<open>The ledger operations\<close>

lemma ledger_entry_key:
  "ledger_entry inventory p b = Some e \<Longrightarrow> ii_product_id e = p \<and> ii_branch_id e = b"
  unfolding ledger_entry_def by (drule find_Some_holds) simp

lemma getOrCreate_key:
  "ii_product_id (getOrCreate row_id inventory p b) = p \<and>
   ii_branch_id (getOrCreate row_id inventory p b) = b"
  by (auto simp: getOrCreate_def dest: ledger_entry_key split: option.splits)

lemma getOrCreate_quantity:
  "ii_quantity (getOrCreate row_id inventory p b) = ledger_quantity inventory p b"
  by (simp add: getOrCreate_def ledger_quantity_def split: option.splits)

lemma ledger_entry_put_same:
  assumes "ii_product_id e = p" "ii_branch_id e = b"
  shows "ledger_entry (put_entry inventory e) p b = Some e"
proof (cases "ledger_entry inventory p b")
  case None
  then show ?thesis using assms
    by (simp add: put_entry_def ledger_entry_def find_append_None)
next
  case (Some r)
  have "find (\<lambda>item. ii_product_id item = p \<and> ii_branch_id item = b)
          (map (\<lambda>r. if ii_product_id r = p \<and> ii_branch_id r = b then e else r) inventory) =
        Some e"
    using Some assms unfolding ledger_entry_def
    by (induction inventory) (auto split: if_splits)
  then show ?thesis using Some assms by (simp add: put_entry_def ledger_entry_def)
qed

lemma ledger_entry_put_other:
  assumes "\<not> (ii_product_id e = p \<and> ii_branch_id e = b)"
  shows "ledger_entry (put_entry inventory e) p b = ledger_entry inventory p b"
proof (cases "ledger_entry inventory (ii_product_id e) (ii_branch_id e)")
  case None
  have "find (\<lambda>item. ii_product_id item = p \<and> ii_branch_id item = b) (inventory @ [e]) =
        find (\<lambda>item. ii_product_id item = p \<and> ii_branch_id item = b) inventory"
    using assms by (induction inventory) auto
  then show ?thesis using None by (simp add: put_entry_def ledger_entry_def)
next
  case (Some r)
  have "find (\<lambda>item. ii_product_id item = p \<and> ii_branch_id item = b)
          (map (\<lambda>r. if ii_product_id r = ii_product_id e \<and> ii_branch_id r = ii_branch_id e
                     then e else r) inventory) =
        find (\<lambda>item. ii_product_id item = p \<and> ii_branch_id item = b) inventory"
    using assms by (induction inventory) auto
  then show ?thesis using Some by (simp add: put_entry_def ledger_entry_def)
qed

lemma setAbsolute_quantity:
  "ledger_quantity (fst (setAbsolute row_id now st p b q reason)) p' b' =
     (if p' = p \<and> b' = b then q else ledger_quantity (fst st) p' b')"
proof (cases "p' = p \<and> b' = b")
  case True
  then show ?thesis
    by (simp add: setAbsolute_def Let_def ledger_quantity_def ledger_entry_put_same
          getOrCreate_key)
next
  case False
  then have "ledger_entry (fst (setAbsolute row_id now st p b q reason)) p' b' =
             ledger_entry (fst st) p' b'"
    by (auto simp: setAbsolute_def Let_def getOrCreate_key intro!: ledger_entry_put_other)
  then show ?thesis using False by (auto simp: ledger_quantity_def)
qed

lemma setAbsolute_adjustments:
  "snd (setAbsolute row_id now st p b q reason) =
     snd st @ [\<lparr>adj_inventory_item_id = ii_id (getOrCreate row_id (fst st) p b),
               adj_previous_quantity = ledger_quantity (fst st) p b,
               adj_new_quantity = q, adj_reason = reason\<rparr>]"
  by (simp add: setAbsolute_def Let_def getOrCreate_quantity)

section \<open>Reconciliation\<close>

lemma reconcile_other:
  "p \<notin> set (map ai_product_id items) \<Longrightarrow>
   ledger_quantity (fst (reconcile row_id now b items st)) p b' = ledger_quantity (fst st) p b'"
  by (induction items arbitrary: st) (auto simp: setAbsolute_quantity split: option.splits)

lemma reconcile_adjustments_append:
  "\<exists>emitted. snd (reconcile row_id now b items st) = snd st @ emitted"
proof (induction items arbitrary: st)
  case Nil
  then show ?case by simp
next
  case (Cons item rest)
  have "\<exists>emitted. snd (reconcile row_id now b rest (setAbsolute row_id now st p b q reason)) =
          snd st @ emitted" for p q reason
    using Cons.IH [of "setAbsolute row_id now st p b q reason"]
    by (auto simp: setAbsolute_adjustments)
  then show ?case using Cons.IH [of st]
    by (simp split: option.splits)
qed

lemma reconcile_sets_quantity:
  assumes "distinct (map ai_product_id items)" "item \<in> set items"
          "ai_actual_quantity item = Some q" "ai_difference item = Some dv" "dv \<noteq> 0"
  shows "ledger_quantity (fst (reconcile row_id now b items st)) (ai_product_id item) b = q"
  using assms
proof (induction items arbitrary: st)
  case Nil
  then show ?case by simp
next
  case (Cons x rest)
  show ?case
  proof (cases "x = item")
    case True
    then have "ai_product_id item \<notin> set (map ai_product_id rest)" using Cons.prems(1) by auto
    then show ?thesis using True Cons.prems
      by (simp add: reconcile_other setAbsolute_quantity)
  next
    case False
    then have "item \<in> set rest" using Cons.prems(2) by simp
    moreover have "distinct (map ai_product_id rest)" using Cons.prems(1) by simp
    ultimately show ?thesis using Cons.IH Cons.prems(3-5)
      by (auto split: option.splits)
  qed
qed

lemma reconcile_emits_adjustment:
  assumes "distinct (map ai_product_id items)" "item \<in> set items"
          "ai_actual_quantity item = Some q" "ai_difference item = Some dv" "dv \<noteq> 0"
  shows "\<exists>emitted. snd (reconcile row_id now b items st) = snd st @ emitted \<and>
           (\<exists>adj \<in> set emitted.
              adj_previous_quantity adj = ledger_quantity (fst st) (ai_product_id item) b \<and>
              adj_new_quantity adj = q \<and> adj_reason adj = ''audit reconciliation'')"
  using assms
proof (induction items arbitrary: st)
  case Nil
  then show ?case by simp
next
  case (Cons x rest)
  show ?case
  proof (cases "x = item")
    case True
    let ?st' = "setAbsolute row_id now st (ai_product_id item) b q ''audit reconciliation''"
    obtain more where more: "snd (reconcile row_id now b rest ?st') = snd ?st' @ more"
      using reconcile_adjustments_append by blast
    have run: "reconcile row_id now b (x # rest) st = reconcile row_id now b rest ?st'"
      using True Cons.prems by simp
    show ?thesis
      unfolding run more setAbsolute_adjustments by auto
  next
    case False
    then have mem: "item \<in> set rest" using Cons.prems(2) by simp
    have dist: "distinct (map ai_product_id rest)" using Cons.prems(1) by simp
    have other: "ai_product_id x \<noteq> ai_product_id item"
      using Cons.prems(1) mem by auto
    note IH = Cons.IH [OF dist mem Cons.prems(3-5)]
    show ?thesis
    proof (cases "\<exists>a dx. ai_actual_quantity x = Some a \<and> ai_difference x = Some dx \<and> dx \<noteq> 0")
      case True
      then obtain a dx where
        x: "ai_actual_quantity x = Some a" "ai_difference x = Some dx" "dx \<noteq> 0"
        by blast
      let ?st' = "setAbsolute row_id now st (ai_product_id x) b a ''audit reconciliation''"
      have run: "reconcile row_id now b (x # rest) st = reconcile row_id now b rest ?st'"
        using x by simp
      have same: "ledger_quantity (fst ?st') (ai_product_id item) b =
                  ledger_quantity (fst st) (ai_product_id item) b"
        using other by (simp add: setAbsolute_quantity)
      from IH [of ?st'] obtain emitted adj where
        e: "snd (reconcile row_id now b rest ?st') = snd ?st' @ emitted" "adj \<in> set emitted"
           "adj_previous_quantity adj = ledger_quantity (fst ?st') (ai_product_id item) b"
           "adj_new_quantity adj = q" "adj_reason adj = ''audit reconciliation''"
        by blast
      show ?thesis
        unfolding run using e same
        by (auto simp: setAbsolute_adjustments)
    next
      case False
      then have run: "reconcile row_id now b (x # rest) st = reconcile row_id now b rest st"
        by (auto split: option.splits)
      show ?thesis unfolding run using IH [of st] .
    qed
  qed
qed

section \<open>Completing an audit\<close>

lemma find_audit_map:
  assumes "\<And>a. au_id (f a) = au_id a"
  shows "find (\<lambda>a. au_id a = i) (map (\<lambda>a. if au_id a = i then f a else a) xs) =
         map_option f (find (\<lambda>a. au_id a = i) xs)"
  using assms by (induction xs) auto

lemma audit_row_survives:
  assumes "a \<in> set xs" "au_id a = i" "\<And>a. au_id (f a) = au_id a"
  shows "\<exists>a' \<in> set (map (\<lambda>a. if au_id a = i then f a else a) xs). au_id a' = i"
proof
  show "f a \<in> set (map (\<lambda>a. if au_id a = i then f a else a) xs)"
    using assms(1,2) by (auto simp: image_iff intro!: bexI [of _ a])
  show "au_id (f a) = i" using assms(2,3) by simp
qed

lemma filter_empty_counted:
  "(\<forall>item \<in> set xs. ai_actual_quantity item \<noteq> None) \<Longrightarrow>
   filter (\<lambda>item. ai_actual_quantity item = None) xs = []"
  by (induction xs) auto

lemma filter_nonempty_uncounted:
  "(\<exists>item \<in> set xs. ai_actual_quantity item = None) \<Longrightarrow>
   filter (\<lambda>item. ai_actual_quantity item = None) xs \<noteq> []"
  by (induction xs) auto

lemma handleCompleteAudit_run:
  assumes counted: "\<forall>item \<in> set (eap_auditItems page). ai_actual_quantity item \<noteq> None"
      and mirror: "eap_auditItems page =
                     filter (\<lambda>i. ai_audit_id i = eap_auditId page) (inventory_audit_items d)"
      and audit: "find (\<lambda>a. au_id a = eap_auditId page) (inventory_audits d) = Some a"
  shows "handleCompleteAudit (audit_completion_trigger row_id now) True page now d =
    (None,
     d\<lparr>inventory_audits :=
          map (\<lambda>a. if au_id a = eap_auditId page
                    then a\<lparr>au_status := completed,
                           au_completed_at := Some now,
                           au_completed_by := map_option user_id (eap_user page),
                           au_updated_at := Some now,
                           au_updated_by := map_option user_id (eap_user page)\<rparr>
                    else a)
              (inventory_audits d),
        inventory_items :=
          fst (reconcile row_id now (au_branch_id a) (eap_auditItems page)
                 (inventory_items d, inventory_adjustments d)),
        inventory_adjustments :=
          snd (reconcile row_id now (au_branch_id a) (eap_auditItems page)
                 (inventory_items d, inventory_adjustments d))\<rparr>)"
  using audit mirror [symmetric]
  by (simp add: handleCompleteAudit_def Let_def filter_empty_counted [OF counted]
        audit_completion_trigger_def find_audit_map split_beta)

text \<open>
  C8. Completing an audit fails with \<open>IncompleteAudit\<close>, leaving the store unchanged, as
  soon as one item of the audit is not counted. When the page shows the audit's items,
  each product once, and every item is counted, the confirmed completion sets the audit's
  status to \<open>completed\<close> and records \<open>completed_by\<close> and \<open>completed_at\<close>; and for every
  item whose difference is not 0 the ledger quantity of the item's product at the audit's
  branch becomes the item's actual quantity, with an adjustment emitted that holds the
  previous and the new quantity for the reason "audit reconciliation" (the ledger part by
  the completion trigger modelled from the specification).
\<close>

theorem handleCompleteAudit_spec:
  "((\<exists>item \<in> set (eap_auditItems page). ai_actual_quantity item = None) \<longrightarrow>
      handleCompleteAudit trig confirmed page now d = (Some IncompleteAudit, d))
   \<and>
   ((\<forall>item \<in> set (eap_auditItems page). ai_actual_quantity item \<noteq> None) \<and>
     eap_auditItems page =
       filter (\<lambda>i. ai_audit_id i = eap_auditId page) (inventory_audit_items d) \<and>
     find (\<lambda>a. au_id a = eap_auditId page) (inventory_audits d) = Some a \<and>
     distinct (map ai_product_id (eap_auditItems page)) \<longrightarrow>
     (let res = handleCompleteAudit (audit_completion_trigger row_id now) True page now d
      in fst res = None \<and>
         (\<exists>a' \<in> set (inventory_audits (snd res)). au_id a' = eap_auditId page) \<and>
         (\<forall>a' \<in> set (inventory_audits (snd res)).
            au_id a' = eap_auditId page \<longrightarrow>
              au_status a' = completed \<and> au_completed_at a' = Some now \<and>
              au_completed_by a' = map_option user_id (eap_user page)) \<and>
         (\<forall>item \<in> set (eap_auditItems page). \<forall>q dv.
            ai_actual_quantity item = Some q \<and> ai_difference item = Some dv \<and> dv \<noteq> 0 \<longrightarrow>
              ledger_quantity (inventory_items (snd res)) (ai_product_id item) (au_branch_id a) = q \<and>
              (\<exists>emitted. inventory_adjustments (snd res) = inventory_adjustments d @ emitted \<and>
                 (\<exists>adj \<in> set emitted.
                    adj_previous_quantity adj =
                      ledger_quantity (inventory_items d) (ai_product_id item) (au_branch_id a) \<and>
                    adj_new_quantity adj = q \<and>
                    adj_reason adj = ''audit reconciliation'')))))"
proof (intro conjI impI)
  assume "\<exists>item \<in> set (eap_auditItems page). ai_actual_quantity item = None"
  then show "handleCompleteAudit trig confirmed page now d = (Some IncompleteAudit, d)"
    by (simp add: handleCompleteAudit_def Let_def filter_nonempty_uncounted)
next
  assume hyps: "(\<forall>item \<in> set (eap_auditItems page). ai_actual_quantity item \<noteq> None) \<and>
     eap_auditItems page =
       filter (\<lambda>i. ai_audit_id i = eap_auditId page) (inventory_audit_items d) \<and>
     find (\<lambda>a. au_id a = eap_auditId page) (inventory_audits d) = Some a \<and>
     distinct (map ai_product_id (eap_auditItems page))"
  then have counted: "\<forall>item \<in> set (eap_auditItems page). ai_actual_quantity item \<noteq> None"
    and mirror: "eap_auditItems page =
       filter (\<lambda>i. ai_audit_id i = eap_auditId page) (inventory_audit_items d)"
    and audit: "find (\<lambda>a. au_id a = eap_auditId page) (inventory_audits d) = Some a"
    and dist: "distinct (map ai_product_id (eap_auditItems page))"
    by blast+
  let ?complete = "\<lambda>a. a\<lparr>au_status := completed,
                           au_completed_at := Some now,
                           au_completed_by := map_option user_id (eap_user page),
                           au_updated_at := Some now,
                           au_updated_by := map_option user_id (eap_user page)\<rparr>"
  let ?st = "reconcile row_id now (au_branch_id a) (eap_auditItems page)
               (inventory_items d, inventory_adjustments d)"
  note run = handleCompleteAudit_run [OF counted mirror audit, of row_id now]
  have a_mem: "a \<in> set (inventory_audits d)" "au_id a = eap_auditId page"
    using find_Some_holds [OF audit] by simp_all
  have row: "\<exists>a' \<in> set (map (\<lambda>a. if au_id a = eap_auditId page then ?complete a else a)
                             (inventory_audits d)). au_id a' = eap_auditId page"
    using audit_row_survives [OF a_mem, of ?complete] by simp
  have item_part:
    "ledger_quantity (fst ?st) (ai_product_id item) (au_branch_id a) = q \<and>
     (\<exists>emitted. snd ?st = inventory_adjustments d @ emitted \<and>
         (\<exists>adj \<in> set emitted.
            adj_previous_quantity adj =
              ledger_quantity (inventory_items d) (ai_product_id item) (au_branch_id a) \<and>
            adj_new_quantity adj = q \<and> adj_reason adj = ''audit reconciliation''))"
    if "item \<in> set (eap_auditItems page)" "ai_actual_quantity item = Some q"
       "ai_difference item = Some dv" "dv \<noteq> 0" for item q dv
    using reconcile_sets_quantity [OF dist that, of row_id now "au_branch_id a"
            "(inventory_items d, inventory_adjustments d)"]
          reconcile_emits_adjustment [OF dist that, of row_id now "au_branch_id a"
            "(inventory_items d, inventory_adjustments d)"]
    by simp
  show "let res = handleCompleteAudit (audit_completion_trigger row_id now) True page now d
      in fst res = None \<and>
         (\<exists>a' \<in> set (inventory_audits (snd res)). au_id a' = eap_auditId page) \<and>
         (\<forall>a' \<in> set (inventory_audits (snd res)).
            au_id a' = eap_auditId page \<longrightarrow>
              au_status a' = completed \<and> au_completed_at a' = Some now \<and>
              au_completed_by a' = map_option user_id (eap_user page)) \<and>
         (\<forall>item \<in> set (eap_auditItems page). \<forall>q dv.
            ai_actual_quantity item = Some q \<and> ai_difference item = Some dv \<and> dv \<noteq> 0 \<longrightarrow>
              ledger_quantity (inventory_items (snd res)) (ai_product_id item) (au_branch_id a) = q \<and>
              (\<exists>emitted. inventory_adjustments (snd res) = inventory_adjustments d @ emitted \<and>
                 (\<exists>adj \<in> set emitted.
                    adj_previous_quantity adj =
                      ledger_quantity (inventory_items d) (ai_product_id item) (au_branch_id a) \<and>
                    adj_new_quantity adj = q \<and>
                    adj_reason adj = ''audit reconciliation'')))"
    unfolding Let_def run fst_conv snd_conv
  proof (intro conjI ballI allI impI)
    show "None = (None :: error option)" by simp
  next
    show "\<exists>a' \<in> set (inventory_audits
            (d\<lparr>inventory_audits :=
                  map (\<lambda>a. if au_id a = eap_auditId page then ?complete a else a)
                      (inventory_audits d),
                inventory_items := fst ?st,
                inventory_adjustments := snd ?st\<rparr>)). au_id a' = eap_auditId page"
      using row by simp
  qed (use item_part in \<open>auto\<close>)
qed

lemmas audit_eval_defs =
  count_then_complete_def handleActualQuantityChange_def handleCompleteAudit_def
  audit_completion_trigger_def setAbsolute_def Let_def

theorem handleCompleteAudit_spec_witness:
  "ai_actual_quantity audit_item0 = None \<and>
   handleCompleteAudit (audit_completion_trigger row_id0 1) True audit_page 1 audit_db =
     (Some IncompleteAudit, audit_db) \<and>
   fst (snd (handleActualQuantityChange None audit_page audit_db ''it1'' 12)) =
     audit_page\<lparr>eap_auditItems :=
                  [audit_item0\<lparr>ai_actual_quantity := Some 12, ai_difference := Some (- 3)\<rparr>]\<rparr> \<and>
   fst (count_then_complete 12) = None \<and>
   map (\<lambda>a. (au_id a, au_status a, au_completed_by a, au_completed_at a))
     (inventory_audits (snd (count_then_complete 12))) =
     [(''A1'', completed, Some ''u1'', Some 1)] \<and>
   ledger_quantity (inventory_items audit_db) ''P1'' ''B1'' = 15 \<and>
   ledger_quantity (inventory_items (snd (count_then_complete 12))) ''P1'' ''B1'' = 12 \<and>
   inventory_adjustments (snd (count_then_complete 12)) =
     [\<lparr>adj_inventory_item_id = ''i1'', adj_previous_quantity = 15, adj_new_quantity = 12,
       adj_reason = ''audit reconciliation''\<rparr>]"
  using handleCompleteAudit_spec
          [of audit_page "audit_completion_trigger row_id0 1" True 1 audit_db]
        handleCompleteAudit_spec
          [of "fst (snd (handleActualQuantityChange None audit_page audit_db ''it1'' 12))" _ _ 1
              "snd (snd (handleActualQuantityChange None audit_page audit_db ''it1'' 12))"
              "\<lparr>au_id = ''A1'', au_branch_id = ''B1'', au_status = in_progress,
                au_completed_at = None, au_completed_by = None,
                au_updated_at = None, au_updated_by = None\<rparr>" row_id0]
  by (simp add: audit_eval_defs example_defs ledger_defs)

section \<open>The ledger never negative\<close>












lemma keeps_nonneg_rejecting_trigger: "keeps_nonneg rejecting_trigger"
  by (simp add: keeps_nonneg_def rejecting_trigger_def)




end
